theory Spec2Isabelle
  imports Main
begin

section \<open>Errors and outcomes\<close>

text \<open>
  Every error of the source is built by \<^verbatim>\<open>fmt.Errorf(format, args...)\<close> or is an opaque
  cause handed back by the cloud API client. An error value is kept as the format string
  together with its arguments, exactly as the call site writes them, so that no rendering
  rule of the verbs \<^verbatim>\<open>%q\<close> and \<^verbatim>\<open>%v\<close> has to be invented.
\<close>

datatype error = Errorf string "fmtarg list" | Cause string
and fmtarg = ArgS string | ArgE error

text \<open>
  Rendering of a format whose only verb is \<^verbatim>\<open>%s\<close> (the argument is copied as it is),
  with as many arguments as verbs.
\<close>

fun Sprintf_s :: "string \<Rightarrow> string list \<Rightarrow> string" where
  "Sprintf_s (CHR ''%'' # CHR ''s'' # fs) (a # as) = a @ Sprintf_s fs as"
| "Sprintf_s (c # fs) as = c # Sprintf_s fs as"
| "Sprintf_s [] as = []"

text \<open>
  A call either returns a value, returns an error, or panics on a nil pointer
  dereference (which no caller in the source recovers from).
\<close>

datatype 'a result = Ok 'a | Err error | Panic

section \<open>The cloud's description of an instance\<close>

text \<open>
  The aws-sdk structures hold pointers; a nil pointer is \<open>None\<close>.
  \<^verbatim>\<open>aws.StringValue\<close> reads a nil string pointer as the empty string.
\<close>

record EbsInstanceBlockDevice =
  VolumeId :: "string option"

record InstanceBlockDeviceMapping =
  DeviceName :: "string option"
  Ebs :: "EbsInstanceBlockDevice option"

record ec2_Instance =
  InstanceId :: "string option"
  BlockDeviceMappings :: "InstanceBlockDeviceMapping option list"

definition StringValue :: "string option \<Rightarrow> string" where
  "StringValue p = (case p of None \<Rightarrow> '''' | Some s \<Rightarrow> s)"

definition HasPrefix :: "string \<Rightarrow> string \<Rightarrow> bool" where
  "HasPrefix s p \<longleftrightarrow> take (length p) s = p"

section \<open>The device name allocator\<close>

text \<open>
  Modelled from the spec: the type \<^verbatim>\<open>DeviceAllocator\<close> is used by the manager, but the
  file that declares it is not among the sources. Its state is the ordered preference
  list of suffixes.
\<close>

type_synonym DeviceAllocator = "string list"

text \<open>
  Modelled from the spec: \<^verbatim>\<open>NewDeviceAllocator\<close> starts from the fixed pool in its fixed
  preference order. The pool is a constant of the missing file and is a parameter here.
\<close>

definition NewDeviceAllocator :: "string list \<Rightarrow> DeviceAllocator" where
  "NewDeviceAllocator pool = pool"

text \<open>
  Modelled from the spec: \<^verbatim>\<open>GetNext\<close> returns the first suffix, in preference order,
  that is not present as a key of the mappings in use; when every suffix of the pool is a
  key it reports exhaustion (\<open>None\<close>).
\<close>

definition GetNext :: "DeviceAllocator \<Rightarrow> (string \<rightharpoonup> string) \<Rightarrow> string option" where
  "GetNext al existing = find (\<lambda>s. existing s = None) al"

text \<open>
  Modelled from the spec: \<^verbatim>\<open>Deprioritize\<close> moves a suffix of the pool to the back of the
  preference order.
\<close>

definition Deprioritize :: "DeviceAllocator \<Rightarrow> string \<Rightarrow> DeviceAllocator" where
  "Deprioritize al chosen =
     (if chosen \<in> set al then filter (\<lambda>s. s \<noteq> chosen) al @ [chosen] else al)"

section \<open>The block device manager\<close>

definition devicePreffix :: string where
  "devicePreffix = ''/dev/xvd''"

text \<open>
  \<^verbatim>\<open>releaseFunc\<close> is not a field of the model: both places that build a device set it to
  the closure \<^verbatim>\<open>func() error { return d.release(device) }\<close> over the device itself, so
  calling it is calling \<open>release\<close> on the device as it is at that moment.
\<close>

record BlockDevice =
  Instance :: "ec2_Instance option"
  Path :: string
  VolumeID :: string
  IsAlreadyAssigned :: bool
  isTainted :: bool

text \<open>
  A Go map is a finite partial function; the inner map of \<open>attaching\<close> for a node that
  was never used is nil (\<open>None\<close>), which reads as an empty map. The mutex makes each
  manager operation atomic, so each is one state transformer.
\<close>

record blockDeviceManager =
  deviceAllocators :: "string \<rightharpoonup> DeviceAllocator"
  attaching :: "string \<rightharpoonup> (string \<rightharpoonup> string)"

definition NewBlockDeviceManager :: blockDeviceManager where
  "NewBlockDeviceManager = \<lparr>deviceAllocators = Map.empty, attaching = Map.empty\<rparr>"

definition newBlockDevice ::
  "ec2_Instance option \<Rightarrow> string \<Rightarrow> string \<Rightarrow> bool \<Rightarrow> BlockDevice" where
  "newBlockDevice instance volumeID path isAlreadyAssigned =
     \<lparr>Instance = instance, Path = path, VolumeID = volumeID,
      IsAlreadyAssigned = isAlreadyAssigned, isTainted = False\<rparr>"

definition getInstanceID :: "ec2_Instance option \<Rightarrow> error + string" where
  "getInstanceID instance =
     (case instance of
        None \<Rightarrow> Inl (Errorf ''can't get ID from a nil instance'' [])
      | Some i \<Rightarrow> Inr (StringValue (InstanceId i)))"

text \<open>Reading \<^verbatim>\<open>d.attaching[nodeID]\<close>: a nil inner map has no entries.\<close>

definition attachingOf :: "blockDeviceManager \<Rightarrow> string \<Rightarrow> (string \<rightharpoonup> string)" where
  "attachingOf d nodeID = (case attaching d nodeID of None \<Rightarrow> Map.empty | Some a \<Rightarrow> a)"

text \<open>The two prefix tests of the loop body, applied one after the other.\<close>

definition stripName :: "string \<Rightarrow> string" where
  "stripName name0 =
     (let name1 = (if HasPrefix name0 ''/dev/sd'' then drop 7 name0 else name0);
          name2 = (if HasPrefix name1 ''/dev/xvd'' then drop 8 name1 else name1)
      in name2)"

text \<open>
  The first loop of \<^verbatim>\<open>getDevicesInUse\<close>, over the slice in its order. Reading a field
  through a nil mapping or a nil \<^verbatim>\<open>Ebs\<close> pointer panics. The length test only logs.
\<close>

fun confirmedLoop ::
  "InstanceBlockDeviceMapping option list \<Rightarrow> (string \<rightharpoonup> string) \<Rightarrow> (string \<rightharpoonup> string) result" where
  "confirmedLoop [] deviceMappings = Ok deviceMappings"
| "confirmedLoop (None # rest) deviceMappings = Panic"
| "confirmedLoop (Some blockDevice # rest) deviceMappings =
     (case Ebs blockDevice of
        None \<Rightarrow> Panic
      | Some ebs \<Rightarrow>
          confirmedLoop rest
            (deviceMappings(stripName (StringValue (DeviceName blockDevice))
               \<mapsto> StringValue (VolumeId ebs))))"

text \<open>
  The second loop writes every in-flight entry over the confirmed ones; the keys of a
  map are distinct, so its order does not matter and the loop is \<open>++\<close>.
\<close>

definition getDevicesInUse ::
  "blockDeviceManager \<Rightarrow> ec2_Instance option \<Rightarrow> string \<Rightarrow> (string \<rightharpoonup> string) result" where
  "getDevicesInUse d instance nodeID =
     (case instance of
        None \<Rightarrow> Panic
      | Some i \<Rightarrow>
         (case confirmedLoop (BlockDeviceMappings i) Map.empty of
            Ok deviceMappings \<Rightarrow> Ok (deviceMappings ++ attachingOf d nodeID)
          | Err e \<Rightarrow> Err e
          | Panic \<Rightarrow> Panic))"

text \<open>
  \<^verbatim>\<open>getPath\<close> ranges over a Go map, whose iteration order is unspecified. The order in
  which the loop visits the keys is the parameter \<open>ks\<close>; a legal order lists every key
  of the map exactly once.
\<close>

definition iterationOrder :: "string list \<Rightarrow> (string \<rightharpoonup> string) \<Rightarrow> bool" where
  "iterationOrder ks m \<longleftrightarrow> distinct ks \<and> set ks = dom m"

definition getPath :: "string list \<Rightarrow> (string \<rightharpoonup> string) \<Rightarrow> string \<Rightarrow> string" where
  "getPath ks deviceMappings volumeID =
     (case find (\<lambda>devicePath. deviceMappings devicePath = Some volumeID) ks of
        Some devicePath \<Rightarrow> devicePath
      | None \<Rightarrow> '''')"

text \<open>
  \<^verbatim>\<open>NewBlockDevice\<close>. \<open>pool\<close> is the allocator's pool and \<open>ks\<close> the order in which
  \<^verbatim>\<open>getPath\<close> visits the merged view.
\<close>

definition NewBlockDevice ::
  "string list \<Rightarrow> string list \<Rightarrow> blockDeviceManager \<Rightarrow> ec2_Instance option \<Rightarrow> string
     \<Rightarrow> BlockDevice result \<times> blockDeviceManager" where
  "NewBlockDevice pool ks d instance volumeID =
     (case getInstanceID instance of
        Inl err \<Rightarrow> (Err err, d)
      | Inr nodeID \<Rightarrow>
         (case getDevicesInUse d instance nodeID of
            Panic \<Rightarrow> (Panic, d)
          | Err e \<Rightarrow> (Err (Errorf ''could not get devices used in instance %q'' [ArgS nodeID]), d)
          | Ok deviceMappings \<Rightarrow>
             (let path = getPath ks deviceMappings volumeID in
              if path \<noteq> '''' then (Ok (newBlockDevice instance volumeID path True), d)
              else
                (let (deviceAllocator, d1) =
                       (case deviceAllocators d nodeID of
                          None \<Rightarrow>
                            (NewDeviceAllocator pool,
                             d\<lparr>deviceAllocators :=
                                 (deviceAllocators d)(nodeID \<mapsto> NewDeviceAllocator pool)\<rparr>)
                        | Some al \<Rightarrow> (al, d))
                 in case GetNext deviceAllocator deviceMappings of
                      None \<Rightarrow>
                        (Err (Errorf ''too many EBS volumes attached to node %s'' [ArgS nodeID]), d1)
                    | Some suffix \<Rightarrow>
                        (let path = devicePreffix @ suffix;
                             d2 = d1\<lparr>attaching :=
                                    (attaching d1)(nodeID \<mapsto> (attachingOf d1 nodeID)(path \<mapsto> volumeID))\<rparr>;
                             d3 = d2\<lparr>deviceAllocators :=
                                    (deviceAllocators d2)(nodeID \<mapsto> Deprioritize deviceAllocator suffix)\<rparr>
                         in (Ok (newBlockDevice instance volumeID path False), d3))))))"

definition GetBlockDevice ::
  "string list \<Rightarrow> blockDeviceManager \<Rightarrow> ec2_Instance option \<Rightarrow> string
     \<Rightarrow> BlockDevice result \<times> blockDeviceManager" where
  "GetBlockDevice ks d instance volumeID =
     (case getInstanceID instance of
        Inl err \<Rightarrow> (Err err, d)
      | Inr nodeID \<Rightarrow>
         (case getDevicesInUse d instance nodeID of
            Panic \<Rightarrow> (Panic, d)
          | Err e \<Rightarrow> (Err (Errorf ''could not get devices used in instance %q'' [ArgS nodeID]), d)
          | Ok inUse \<Rightarrow>
             (let path = getPath ks inUse volumeID;
                  device = newBlockDevice instance volumeID path False
              in (Ok (if path \<noteq> '''' then device\<lparr>IsAlreadyAssigned := True\<rparr> else device), d))))"

definition release :: "blockDeviceManager \<Rightarrow> BlockDevice \<Rightarrow> error option \<times> blockDeviceManager" where
  "release d device =
     (case getInstanceID (Instance device) of
        Inl err \<Rightarrow> (Some err, d)
      | Inr nodeID \<Rightarrow>
         (case attachingOf d nodeID (Path device) of
            None \<Rightarrow>
              (Some (Errorf ''release called for disk %q when attach not in progress''
                       [ArgS (VolumeID device)]), d)
          | Some existingVolumeID \<Rightarrow>
              if VolumeID device \<noteq> existingVolumeID then
                (Some (Errorf ''release on device %q assigned to different volume: %q vs %q''
                         [ArgS (Path device), ArgS (VolumeID device), ArgS existingVolumeID]), d)
              else
                (None, d\<lparr>attaching :=
                          (attaching d)(nodeID \<mapsto> (attachingOf d nodeID)(Path device := None))\<rparr>)))"

text \<open>\<^verbatim>\<open>BlockDevice.Release\<close> logs a release error and returns nothing.\<close>

definition Release :: "bool \<Rightarrow> BlockDevice \<Rightarrow> blockDeviceManager \<Rightarrow> blockDeviceManager" where
  "Release force dev d = (if \<not> isTainted dev \<or> force then snd (release d dev) else d)"

definition Taint :: "BlockDevice \<Rightarrow> BlockDevice" where
  "Taint dev = dev\<lparr>isTainted := True\<rparr>"

text \<open>
  The allocator \<^verbatim>\<open>NewBlockDevice\<close> works with for a node: the one stored for it, or a
  newly made one when the node has none yet.
\<close>

definition allocatorOf :: "string list \<Rightarrow> blockDeviceManager \<Rightarrow> string \<Rightarrow> DeviceAllocator" where
  "allocatorOf pool d nodeID =
     (case deviceAllocators d nodeID of None \<Rightarrow> NewDeviceAllocator pool | Some al \<Rightarrow> al)"

text \<open>
  Every in-flight key is a path that starts with the device prefix. The manager
  establishes this when it is created and every operation keeps it.
\<close>

definition inflightPrefixed :: "blockDeviceManager \<Rightarrow> bool" where
  "inflightPrefixed d \<longleftrightarrow>
     (\<forall>n p v. attachingOf d n p = Some v \<longrightarrow> HasPrefix p devicePreffix)"

section \<open>Attach and detach in package cloud\<close>

text \<open>
  The requests and the answer of the cloud API client, with their fields in this order:
  \<^verbatim>\<open>AttachVolumeInput\<close> is Device, InstanceId, VolumeId; \<^verbatim>\<open>DetachVolumeInput\<close> is
  InstanceId, VolumeId; \<^verbatim>\<open>VolumeAttachment\<close> is Device, InstanceId, VolumeId, State.
\<close>

datatype AttachVolumeInput = AttachVolumeInput string string string

datatype DetachVolumeInput = DetachVolumeInput string string

datatype VolumeAttachment = VolumeAttachment string string string string

text \<open>
  \<^verbatim>\<open>Cloud\<close> reaches its two collaborators through interfaces: the device manager
  \<^verbatim>\<open>c.dm\<close>, whose declaration is not among the sources, and the cloud API client
  \<^verbatim>\<open>c.ec2\<close>. Both are parameters: a collaborator is a record of functions over the state
  \<open>'w\<close> of everything outside \<^verbatim>\<open>Cloud\<close>, each returning its answer and the new state.
  The signatures are the ones the call sites use: \<^verbatim>\<open>GetDevice\<close> answers a device and
  whether it was already attached, or an error; the value of \<^verbatim>\<open>ReleaseDevice\<close> is dropped
  by both callers. Of the API client only the calls of attach and detach are kept, and
  \<^verbatim>\<open>DescribeVolumes\<close>, by which the state of an attachment can be read.
\<close>

record 'w DeviceManager =
  GetDevice :: "string \<Rightarrow> string \<Rightarrow> 'w \<Rightarrow> (error + string \<times> bool) \<times> 'w"
  ReleaseDevice :: "string \<Rightarrow> string \<Rightarrow> string \<Rightarrow> 'w \<Rightarrow> error option \<times> 'w"
  GetAssignedDevice :: "string \<Rightarrow> string \<Rightarrow> 'w \<Rightarrow> (error + string) \<times> 'w"

record 'w EC2 =
  DescribeVolumes :: "string \<Rightarrow> 'w \<Rightarrow> (error + VolumeAttachment list) \<times> 'w"
  DetachVolume :: "DetachVolumeInput \<Rightarrow> 'w \<Rightarrow> (error + VolumeAttachment) \<times> 'w"
  AttachVolume :: "AttachVolumeInput \<Rightarrow> 'w \<Rightarrow> (error + VolumeAttachment) \<times> 'w"

record 'w Cloud =
  dm :: "'w DeviceManager"
  ec2 :: "'w EC2"

text \<open>
  The calls a run makes on its collaborators, in order, are returned with the result, so
  that how often and when a collaborator is called can be stated.
\<close>

datatype call =
    CallGetDevice string string
  | CallGetAssignedDevice string string
  | CallReleaseDevice string string string
  | CallAttachVolume AttachVolumeInput
  | CallDetachVolume DetachVolumeInput
  | CallDescribeVolumes string

fun isReleaseCall :: "call \<Rightarrow> bool" where
  "isReleaseCall (CallReleaseDevice nodeID volumeID mntDevice) = True"
| "isReleaseCall _ = False"

fun isAttachCall :: "call \<Rightarrow> bool" where
  "isAttachCall (CallAttachVolume input) = True"
| "isAttachCall _ = False"

fun isDescribeCall :: "call \<Rightarrow> bool" where
  "isDescribeCall (CallDescribeVolumes volumeID) = True"
| "isDescribeCall _ = False"

text \<open>
  \<^verbatim>\<open>AttachDisk\<close>, in two parts. The body is the code after the deferred function is
  registered; it returns, with the result, the value of \<^verbatim>\<open>attachEnded\<close> at the return,
  the calls made and the state. \<^verbatim>\<open>AttachDisk\<close> itself asks for the device, returns at once
  if that fails (nothing is deferred yet), and otherwise runs the body and then the
  deferred function, which releases the device if \<^verbatim>\<open>attachEnded\<close> is set. The waiting for
  the attachment and the check of what was attached are commented out in the source and
  are not part of the model.
\<close>

definition AttachDisk_body ::
  "'w Cloud \<Rightarrow> string \<Rightarrow> string \<Rightarrow> string \<Rightarrow> bool \<Rightarrow> 'w
     \<Rightarrow> (error + string) \<times> bool \<times> call list \<times> 'w" where
  "AttachDisk_body c volumeID nodeID mntDevice alreadyAttached w =
     (let device = mntDevice
      in if \<not> alreadyAttached then
           (let request = AttachVolumeInput device nodeID volumeID
            in case AttachVolume (ec2 c) request w of
                 (Inl err, w') \<Rightarrow>
                   (Inl (Errorf ''could not attach volume %q to node %q: %v''
                           [ArgS volumeID, ArgS nodeID, ArgE err]),
                    True, [CallAttachVolume request], w')
               | (Inr resp, w') \<Rightarrow>
                   (Inr device, True, [CallAttachVolume request], w'))
         else (Inr device, True, [], w))"

definition AttachDisk ::
  "'w Cloud \<Rightarrow> string \<Rightarrow> string \<Rightarrow> 'w \<Rightarrow> (error + string) \<times> call list \<times> 'w" where
  "AttachDisk c volumeID nodeID w =
     (case GetDevice (dm c) nodeID volumeID w of
        (Inl mntErr, w1) \<Rightarrow> (Inl mntErr, [CallGetDevice nodeID volumeID], w1)
      | (Inr (mntDevice, alreadyAttached), w1) \<Rightarrow>
          (case AttachDisk_body c volumeID nodeID mntDevice alreadyAttached w1 of
             (ret, attachEnded, calls, w2) \<Rightarrow>
               if attachEnded then
                 (ret,
                  CallGetDevice nodeID volumeID # calls
                    @ [CallReleaseDevice nodeID volumeID mntDevice],
                  snd (ReleaseDevice (dm c) nodeID volumeID mntDevice w2))
               else (ret, CallGetDevice nodeID volumeID # calls, w2)))"

definition DetachDisk ::
  "'w Cloud \<Rightarrow> string \<Rightarrow> string \<Rightarrow> 'w \<Rightarrow> error option \<times> call list \<times> 'w" where
  "DetachDisk c volumeID nodeID w =
     (case GetAssignedDevice (dm c) nodeID volumeID w of
        (Inl err, w1) \<Rightarrow> (Some err, [CallGetAssignedDevice nodeID volumeID], w1)
      | (Inr mntDevice, w1) \<Rightarrow>
          (let request = DetachVolumeInput nodeID volumeID
           in case DetachVolume (ec2 c) request w1 of
                (Inl err, w2) \<Rightarrow>
                  (Some (Errorf ''could not detach volume %q from node %q: %v''
                           [ArgS volumeID, ArgS nodeID, ArgE err]),
                   [CallGetAssignedDevice nodeID volumeID, CallDetachVolume request], w2)
              | (Inr resp, w2) \<Rightarrow>
                  if mntDevice \<noteq> '''' then
                    (None,
                     [CallGetAssignedDevice nodeID volumeID, CallDetachVolume request,
                      CallReleaseDevice nodeID volumeID mntDevice],
                     snd (ReleaseDevice (dm c) nodeID volumeID mntDevice w2))
                  else
                    (None,
                     [CallGetAssignedDevice nodeID volumeID, CallDetachVolume request], w2)))"

section \<open>Concrete inputs\<close>

text \<open>
  Instances as the cloud describes them: \<open>i1\<close> with no volume attached, \<open>i2\<close> with
  \<open>vol-X\<close> at \<^verbatim>\<open>/dev/xvdf\<close>, \<open>i3\<close> with \<open>vol-X\<close> under the bare prefix
  \<^verbatim>\<open>/dev/xvd\<close>, \<open>i4\<close> with \<open>vol-Y\<close> at \<^verbatim>\<open>/dev/sdf\<close>, \<open>i5\<close> with \<open>vol-X\<close> at
  \<^verbatim>\<open>/dev/xvdf\<close> followed by \<open>vol-W\<close> at \<^verbatim>\<open>/dev/sdf\<close>; and the manager after each
  step of a run on \<open>i1\<close> with the pool \<open>[f, g]\<close>; \<open>d1\<close> and \<open>d2\<close> are managers
  with one in-flight entry and with one allocator.
\<close>

definition i1 :: ec2_Instance where
  "i1 = \<lparr>InstanceId = Some ''i-1'', BlockDeviceMappings = []\<rparr>"

definition i2 :: ec2_Instance where
  "i2 = \<lparr>InstanceId = Some ''i-2'',
         BlockDeviceMappings =
           [Some \<lparr>DeviceName = Some ''/dev/xvdf'', Ebs = Some \<lparr>VolumeId = Some ''vol-X''\<rparr>\<rparr>]\<rparr>"




definition d1 :: blockDeviceManager where
  "d1 = \<lparr>deviceAllocators = Map.empty,
         attaching = [''i-1'' \<mapsto> [''/dev/xvdf'' \<mapsto> ''vol-A'']]\<rparr>"

definition d2 :: blockDeviceManager where
  "d2 = \<lparr>deviceAllocators = [''i-2'' \<mapsto> [''f'']], attaching = Map.empty\<rparr>"

definition s1 :: blockDeviceManager where
  "s1 = \<lparr>deviceAllocators = [''i-1'' \<mapsto> [''g'', ''f'']],
         attaching = [''i-1'' \<mapsto> [''/dev/xvdf'' \<mapsto> ''vol-A'']]\<rparr>"

definition s2 :: blockDeviceManager where
  "s2 = \<lparr>deviceAllocators = [''i-1'' \<mapsto> [''f'', ''g'']],
         attaching = [''i-1'' \<mapsto> [''/dev/xvdf'' \<mapsto> ''vol-A'', ''/dev/xvdg'' \<mapsto> ''vol-B'']]\<rparr>"

definition s3 :: blockDeviceManager where
  "s3 = \<lparr>deviceAllocators = [''i-1'' \<mapsto> [''f'', ''g'']],
         attaching = [''i-1'' \<mapsto> [''/dev/xvdf'' \<mapsto> ''vol-A'']]\<rparr>"

definition s4 :: blockDeviceManager where
  "s4 = \<lparr>deviceAllocators = [''i-1'' \<mapsto> [''g'', ''f'']],
         attaching = [''i-1'' \<mapsto> [''/dev/xvdf'' \<mapsto> ''vol-C'']]\<rparr>"

text \<open>
  Modelled from the spec: the device manager of package cloud (\<^verbatim>\<open>GetDevice\<close>,
  \<^verbatim>\<open>ReleaseDevice\<close>, \<^verbatim>\<open>GetAssignedDevice\<close>) is not among the sources. For the concrete
  runs it is played by the block device manager above, as the spec's attach and detach
  use the registry: reserve, release and lookup on the description \<open>inst\<close> of the node.
  The state outside \<^verbatim>\<open>Cloud\<close> is then the block device manager.
\<close>

definition registryDM ::
  "string list \<Rightarrow> string list \<Rightarrow> ec2_Instance \<Rightarrow> blockDeviceManager DeviceManager" where
  "registryDM pool ks inst =
     \<lparr>GetDevice = (\<lambda>nodeID volumeID r.
        case NewBlockDevice pool ks r (Some inst) volumeID of
          (Ok dev, r') \<Rightarrow> (Inr (Path dev, IsAlreadyAssigned dev), r')
        | (Err e, r') \<Rightarrow> (Inl e, r')
        | (Panic, r') \<Rightarrow> (Inl (Cause ''panic''), r')),
      ReleaseDevice = (\<lambda>nodeID volumeID mntDevice r.
        release r (newBlockDevice (Some inst) volumeID mntDevice False)),
      GetAssignedDevice = (\<lambda>nodeID volumeID r.
        case GetBlockDevice ks r (Some inst) volumeID of
          (Ok dev, r') \<Rightarrow> (Inr (Path dev), r')
        | (Err e, r') \<Rightarrow> (Inl e, r')
        | (Panic, r') \<Rightarrow> (Inl (Cause ''panic''), r'))\<rparr>"

text \<open>
  Two API clients for the concrete runs: one that refuses every request, and one that
  accepts every request but, when asked, reports the volume still attaching, at another
  device of another instance.
\<close>

definition ec2Failing :: "'w EC2" where
  "ec2Failing =
     \<lparr>DescribeVolumes = (\<lambda>volumeID w. (Inl (Cause ''RequestLimitExceeded''), w)),
      DetachVolume = (\<lambda>input w. (Inl (Cause ''RequestLimitExceeded''), w)),
      AttachVolume = (\<lambda>input w. (Inl (Cause ''RequestLimitExceeded''), w))\<rparr>"

definition ec2Accepting :: "'w EC2" where
  "ec2Accepting =
     \<lparr>DescribeVolumes = (\<lambda>volumeID w.
        (Inr [VolumeAttachment ''/dev/xvdz'' ''i-9'' volumeID ''attaching''], w)),
      DetachVolume = (\<lambda>input w.
        case input of DetachVolumeInput nodeID volumeID \<Rightarrow>
          (Inr (VolumeAttachment '''' nodeID volumeID ''detaching''), w)),
      AttachVolume = (\<lambda>input w.
        case input of AttachVolumeInput device nodeID volumeID \<Rightarrow>
          (Inr (VolumeAttachment device nodeID volumeID ''attaching''), w))\<rparr>"

definition s5 :: blockDeviceManager where
  "s5 = \<lparr>deviceAllocators = [''i-1'' \<mapsto> [''g'', ''f'']],
         attaching = [''i-1'' \<mapsto> Map.empty]\<rparr>"

definition cloud1Failing :: "blockDeviceManager Cloud" where
  "cloud1Failing = \<lparr>dm = registryDM [''f'', ''g''] [] i1, ec2 = ec2Failing\<rparr>"

definition cloud1Accepting :: "blockDeviceManager Cloud" where
  "cloud1Accepting = \<lparr>dm = registryDM [''f'', ''g''] [] i1, ec2 = ec2Accepting\<rparr>"

definition cloud2Accepting :: "blockDeviceManager Cloud" where
  "cloud2Accepting = \<lparr>dm = registryDM [''f'', ''g''] [''f''] i2, ec2 = ec2Accepting\<rparr>"

definition cloud2Failing :: "blockDeviceManager Cloud" where
  "cloud2Failing = \<lparr>dm = registryDM [''f'', ''g''] [''f''] i2, ec2 = ec2Failing\<rparr>"

section \<open>Lookups in the merged view\<close>

lemma getPath_cases:
  "(getPath ks m v = '''' \<and> find (\<lambda>p. m p = Some v) ks = None)
   \<or> (find (\<lambda>p. m p = Some v) ks = Some (getPath ks m v))"
  by (cases "find (\<lambda>p. m p = Some v) ks") (simp_all add: getPath_def)

lemma getPath_found:
  assumes "getPath ks m v \<noteq> ''''"
  shows "m (getPath ks m v) = Some v"
proof -
  from assms getPath_cases [of ks m v]
  have "find (\<lambda>p. m p = Some v) ks = Some (getPath ks m v)" by auto
  then show ?thesis by (auto simp: find_Some_iff)
qed

lemma getPath_absent:
  assumes "\<forall>k. m k \<noteq> Some v"
  shows "getPath ks m v = ''''"
proof (rule ccontr)
  assume "getPath ks m v \<noteq> ''''"
  then have "m (getPath ks m v) = Some v" by (rule getPath_found)
  with assms show False by blast
qed



lemma getInstanceID_Some:
  "getInstanceID (Some i) = Inr (StringValue (InstanceId i))"
  by (simp add: getInstanceID_def)

lemma getDevicesInUse_Some:
  "confirmedLoop (BlockDeviceMappings i) Map.empty = Ok c \<Longrightarrow>
   getDevicesInUse d (Some i) nodeID = Ok (c ++ attachingOf d nodeID)"
  by (simp add: getDevicesInUse_def)


lemma GetNext_Some:
  "GetNext al m = Some s \<Longrightarrow> s \<in> set al \<and> m s = None"
  by (auto simp: GetNext_def find_Some_iff)

section \<open>The three ways \<^verbatim>\<open>NewBlockDevice\<close> ends\<close>

lemma NewBlockDevice_assigned:
  assumes "getInstanceID instance = Inr nodeID"
    and "getDevicesInUse d instance nodeID = Ok m"
    and "getPath ks m volumeID \<noteq> ''''"
  shows "NewBlockDevice pool ks d instance volumeID =
           (Ok (newBlockDevice instance volumeID (getPath ks m volumeID) True), d)"
  using assms by (simp add: NewBlockDevice_def)

lemma NewBlockDevice_exhausted:
  assumes "getInstanceID instance = Inr nodeID"
    and "getDevicesInUse d instance nodeID = Ok m"
    and "getPath ks m volumeID = ''''"
    and "GetNext (allocatorOf pool d nodeID) m = None"
  shows "NewBlockDevice pool ks d instance volumeID =
           (Err (Errorf ''too many EBS volumes attached to node %s'' [ArgS nodeID]),
            d\<lparr>deviceAllocators := (deviceAllocators d)(nodeID \<mapsto> allocatorOf pool d nodeID)\<rparr>)"
proof (cases "deviceAllocators d nodeID")
  case None
  with assms show ?thesis
    by (simp add: NewBlockDevice_def allocatorOf_def Let_def)
next
  case (Some al)
  then have "(deviceAllocators d)(nodeID \<mapsto> al) = deviceAllocators d"
    by (auto simp: fun_eq_iff)
  with assms Some show ?thesis
    by (simp add: NewBlockDevice_def allocatorOf_def Let_def)
qed

lemma NewBlockDevice_fresh:
  assumes "getInstanceID instance = Inr nodeID"
    and "getDevicesInUse d instance nodeID = Ok m"
    and "getPath ks m volumeID = ''''"
    and "GetNext (allocatorOf pool d nodeID) m = Some suffix"
  shows "NewBlockDevice pool ks d instance volumeID =
           (Ok (newBlockDevice instance volumeID (devicePreffix @ suffix) False),
            \<lparr>deviceAllocators =
                (deviceAllocators d)(nodeID \<mapsto> Deprioritize (allocatorOf pool d nodeID) suffix),
             attaching =
                (attaching d)(nodeID \<mapsto> (attachingOf d nodeID)(devicePreffix @ suffix \<mapsto> volumeID))\<rparr>)"
proof (cases "deviceAllocators d nodeID")
  case None
  with assms show ?thesis
    by (simp add: NewBlockDevice_def allocatorOf_def Let_def attachingOf_def)
next
  case (Some al)
  with assms show ?thesis
    by (simp add: NewBlockDevice_def allocatorOf_def Let_def attachingOf_def)
qed

lemma GetBlockDevice_found:
  assumes "getInstanceID instance = Inr nodeID"
    and "getDevicesInUse d instance nodeID = Ok m"
  shows "GetBlockDevice ks d instance volumeID =
           (Ok (newBlockDevice instance volumeID (getPath ks m volumeID)
                  (getPath ks m volumeID \<noteq> '''')), d)"
  using assms by (simp add: GetBlockDevice_def Let_def newBlockDevice_def)

section \<open>Facts about the concrete inputs\<close>

lemma i1_id: "getInstanceID (Some i1) = Inr ''i-1''"
  by (simp add: getInstanceID_def i1_def StringValue_def)

lemma i1_view: "getDevicesInUse d (Some i1) ''i-1'' = Ok (attachingOf d ''i-1'')"
  by (simp add: getDevicesInUse_def i1_def)

lemma attachingOf_init: "attachingOf NewBlockDeviceManager n = Map.empty"
  by (simp add: attachingOf_def NewBlockDeviceManager_def)

lemma i2_confirmed:
  "confirmedLoop (BlockDeviceMappings i2) Map.empty = Ok [''f'' \<mapsto> ''vol-X'']"
  by (simp add: i2_def stripName_def HasPrefix_def StringValue_def)



lemma i2_id: "getInstanceID (Some i2) = Inr ''i-2''"
  by (simp add: getInstanceID_def i2_def StringValue_def)

lemma i2_view:
  "getDevicesInUse d (Some i2) ''i-2'' = Ok ([''f'' \<mapsto> ''vol-X''] ++ attachingOf d ''i-2'')"
  using i2_confirmed by (rule getDevicesInUse_Some)

lemma run_step1:
  "NewBlockDevice [''f'', ''g''] [] NewBlockDeviceManager (Some i1) ''vol-A'' =
     (Ok (newBlockDevice (Some i1) ''vol-A'' ''/dev/xvdf'' False), s1)"
proof -
  have att: "attachingOf NewBlockDeviceManager ''i-1'' = Map.empty"
    by (simp add: attachingOf_def NewBlockDeviceManager_def)
  have v: "getDevicesInUse NewBlockDeviceManager (Some i1) ''i-1'' = Ok Map.empty"
    by (simp add: i1_view att)
  have np: "getPath [] Map.empty ''vol-A'' = ''''"
    by (simp add: getPath_def)
  have a: "allocatorOf [''f'', ''g''] NewBlockDeviceManager ''i-1'' = [''f'', ''g'']"
    by (simp add: allocatorOf_def NewBlockDeviceManager_def NewDeviceAllocator_def)
  have g: "GetNext (allocatorOf [''f'', ''g''] NewBlockDeviceManager ''i-1'') Map.empty = Some ''f''"
    by (simp add: a GetNext_def)
  have fields: "deviceAllocators NewBlockDeviceManager = Map.empty"
    "attaching NewBlockDeviceManager = Map.empty"
    by (simp_all add: NewBlockDeviceManager_def)
  show ?thesis
    unfolding NewBlockDevice_fresh [OF i1_id v np g]
    by (simp add: a att) (simp add: s1_def Deprioritize_def devicePreffix_def fields)
qed

lemma run_step2:
  "NewBlockDevice [''f'', ''g''] [''/dev/xvdf''] s1 (Some i1) ''vol-B'' =
     (Ok (newBlockDevice (Some i1) ''vol-B'' ''/dev/xvdg'' False), s2)"
proof -
  have att: "attachingOf s1 ''i-1'' = [''/dev/xvdf'' \<mapsto> ''vol-A'']"
    by (simp add: attachingOf_def s1_def)
  have v: "getDevicesInUse s1 (Some i1) ''i-1'' = Ok [''/dev/xvdf'' \<mapsto> ''vol-A'']"
    by (simp add: i1_view att)
  have np: "getPath [''/dev/xvdf''] [''/dev/xvdf'' \<mapsto> ''vol-A''] ''vol-B'' = ''''"
    by (simp add: getPath_def)
  have a: "allocatorOf [''f'', ''g''] s1 ''i-1'' = [''g'', ''f'']"
    by (simp add: allocatorOf_def s1_def)
  have g: "GetNext (allocatorOf [''f'', ''g''] s1 ''i-1'') [''/dev/xvdf'' \<mapsto> ''vol-A''] = Some ''g''"
    by (simp add: a GetNext_def)
  show ?thesis
    unfolding NewBlockDevice_fresh [OF i1_id v np g]
    by (simp add: a att) (simp add: s1_def s2_def Deprioritize_def devicePreffix_def)
qed

lemma run_step3:
  "release s2 (newBlockDevice (Some i1) ''vol-B'' ''/dev/xvdg'' False) = (None, s3)"
proof -
  have att: "attachingOf s2 ''i-1'' = [''/dev/xvdf'' \<mapsto> ''vol-A'', ''/dev/xvdg'' \<mapsto> ''vol-B'']"
    by (simp add: attachingOf_def s2_def)
  have del: "[''/dev/xvdf'' \<mapsto> ''vol-A'', ''/dev/xvdg'' \<mapsto> ''vol-B''](''/dev/xvdg'' := None)
      = [''/dev/xvdf'' \<mapsto> ''vol-A'']"
    by (auto simp: fun_eq_iff)
  show ?thesis
    by (simp add: release_def newBlockDevice_def i1_id att del) (simp add: s2_def s3_def)
qed

lemma run_step4:
  "NewBlockDevice [''f'', ''g''] [''/dev/xvdf''] s3 (Some i1) ''vol-C'' =
     (Ok (newBlockDevice (Some i1) ''vol-C'' ''/dev/xvdf'' False), s4)"
proof -
  have att: "attachingOf s3 ''i-1'' = [''/dev/xvdf'' \<mapsto> ''vol-A'']"
    by (simp add: attachingOf_def s3_def)
  have v: "getDevicesInUse s3 (Some i1) ''i-1'' = Ok [''/dev/xvdf'' \<mapsto> ''vol-A'']"
    by (simp add: i1_view att)
  have np: "getPath [''/dev/xvdf''] [''/dev/xvdf'' \<mapsto> ''vol-A''] ''vol-C'' = ''''"
    by (simp add: getPath_def)
  have a: "allocatorOf [''f'', ''g''] s3 ''i-1'' = [''f'', ''g'']"
    by (simp add: allocatorOf_def s3_def)
  have g: "GetNext (allocatorOf [''f'', ''g''] s3 ''i-1'') [''/dev/xvdf'' \<mapsto> ''vol-A''] = Some ''f''"
    by (simp add: a GetNext_def)
  show ?thesis
    unfolding NewBlockDevice_fresh [OF i1_id v np g]
    by (simp add: a att) (simp add: s3_def s4_def Deprioritize_def devicePreffix_def)
qed

lemma run_release1:
  "release s1 (newBlockDevice (Some i1) ''vol-A'' ''/dev/xvdf'' False) = (None, s5)"
proof -
  have att: "attachingOf s1 ''i-1'' = [''/dev/xvdf'' \<mapsto> ''vol-A'']"
    by (simp add: attachingOf_def s1_def)
  have del: "[''/dev/xvdf'' \<mapsto> ''vol-A''](''/dev/xvdf'' := None) = Map.empty"
    by (auto simp: fun_eq_iff)
  show ?thesis
    by (simp add: release_def newBlockDevice_def i1_id att del) (simp add: s1_def s5_def)
qed

section \<open>Releasing a reservation\<close>

lemma release_error_keeps_state:
  "fst (release d device) \<noteq> None \<Longrightarrow> snd (release d device) = d"
  by (auto simp: release_def split: sum.splits option.splits if_splits)

text \<open>
  Claim C3. For a device whose instance is not nil (so that its node is resolved):
  with no in-flight entry for (node, path) \<open>release\<close> fails with the error
  "release called for disk ... when attach not in progress"; with an entry whose stored
  volume id differs from the device's it fails with the mismatch error, whose arguments
  are the path, the requested and the stored volume id; otherwise it returns no error and
  deletes exactly that entry (every other entry and the allocators stay as they were).
  Whenever an error is returned, the manager is left exactly as it was.
\<close>

theorem release_outcomes:
  assumes inst: "Instance device = Some i"
    and node: "nodeID = StringValue (InstanceId i)"
  shows "(attachingOf d nodeID (Path device) = None \<longrightarrow>
            release d device =
              (Some (Errorf ''release called for disk %q when attach not in progress''
                       [ArgS (VolumeID device)]), d))
       \<and> (\<forall>existingVolumeID.
            attachingOf d nodeID (Path device) = Some existingVolumeID
              \<and> VolumeID device \<noteq> existingVolumeID \<longrightarrow>
            release d device =
              (Some (Errorf ''release on device %q assigned to different volume: %q vs %q''
                       [ArgS (Path device), ArgS (VolumeID device), ArgS existingVolumeID]), d))
       \<and> (attachingOf d nodeID (Path device) = Some (VolumeID device) \<longrightarrow>
            fst (release d device) = None
          \<and> attachingOf (snd (release d device)) nodeID (Path device) = None
          \<and> (\<forall>n p. (n, p) \<noteq> (nodeID, Path device) \<longrightarrow>
                attachingOf (snd (release d device)) n p = attachingOf d n p)
          \<and> deviceAllocators (snd (release d device)) = deviceAllocators d)
       \<and> (fst (release d device) \<noteq> None \<longrightarrow> snd (release d device) = d)"
proof -
  have id: "getInstanceID (Instance device) = Inr nodeID"
    by (simp add: getInstanceID_def inst node)
  have absent: "attachingOf d nodeID (Path device) = None \<Longrightarrow>
      release d device =
        (Some (Errorf ''release called for disk %q when attach not in progress''
                 [ArgS (VolumeID device)]), d)"
    by (simp add: release_def id)
  have mismatch: "\<And>e. attachingOf d nodeID (Path device) = Some e \<Longrightarrow> VolumeID device \<noteq> e \<Longrightarrow>
      release d device =
        (Some (Errorf ''release on device %q assigned to different volume: %q vs %q''
                 [ArgS (Path device), ArgS (VolumeID device), ArgS e]), d)"
    by (simp add: release_def id)
  have ok: "attachingOf d nodeID (Path device) = Some (VolumeID device) \<Longrightarrow>
      release d device =
        (None, d\<lparr>attaching :=
                  (attaching d)(nodeID \<mapsto> (attachingOf d nodeID)(Path device := None))\<rparr>)"
    by (simp add: release_def id)
  have del: "attachingOf d nodeID (Path device) = Some (VolumeID device) \<Longrightarrow>
            fst (release d device) = None
          \<and> attachingOf (snd (release d device)) nodeID (Path device) = None
          \<and> (\<forall>n p. (n, p) \<noteq> (nodeID, Path device) \<longrightarrow>
                attachingOf (snd (release d device)) n p = attachingOf d n p)
          \<and> deviceAllocators (snd (release d device)) = deviceAllocators d"
    by (simp add: ok attachingOf_def)
  show ?thesis
    using absent mismatch del release_error_keeps_state by blast
qed

theorem release_outcomes_witness:
  "release d1 (newBlockDevice (Some i1) ''vol-A'' ''/dev/xvdg'' False) =
     (Some (Errorf ''release called for disk %q when attach not in progress'' [ArgS ''vol-A'']), d1)
   \<and> release d1 (newBlockDevice (Some i1) ''vol-B'' ''/dev/xvdf'' False) =
     (Some (Errorf ''release on device %q assigned to different volume: %q vs %q''
              [ArgS ''/dev/xvdf'', ArgS ''vol-B'', ArgS ''vol-A'']), d1)
   \<and> fst (release d1 (newBlockDevice (Some i1) ''vol-A'' ''/dev/xvdf'' False)) = None
   \<and> attachingOf (snd (release d1 (newBlockDevice (Some i1) ''vol-A'' ''/dev/xvdf'' False)))
        ''i-1'' ''/dev/xvdf'' = None"
proof -
  have a: "attachingOf d1 ''i-1'' ''/dev/xvdg'' = None"
    and b: "attachingOf d1 ''i-1'' ''/dev/xvdf'' = Some ''vol-A''"
    by (simp_all add: attachingOf_def d1_def)
  have n: "''i-1'' = StringValue (InstanceId i1)"
    by (simp add: i1_def StringValue_def)
  show ?thesis
    using release_outcomes [of "newBlockDevice (Some i1) ''vol-A'' ''/dev/xvdg'' False" i1 "''i-1''" d1]
      release_outcomes [of "newBlockDevice (Some i1) ''vol-B'' ''/dev/xvdf'' False" i1 "''i-1''" d1]
      release_outcomes [of "newBlockDevice (Some i1) ''vol-A'' ''/dev/xvdf'' False" i1 "''i-1''" d1]
      a b n
    by (simp add: newBlockDevice_def)
qed

section \<open>Taint and Release\<close>

lemma release_Taint: "release d (Taint dev) = release d dev"
  by (simp add: release_def Taint_def split: sum.splits option.splits)

text \<open>
  Claim C9. After \<open>Taint\<close>, \<open>Release False\<close> leaves the manager as it was, so an
  in-flight entry of the device stays in place, while \<open>Release True\<close> performs the
  release and the entry is gone; \<open>Release False\<close> on a device that was never tainted
  performs the release.
\<close>

theorem Release_taint:
  "Release False (Taint dev) d = d
   \<and> Release True (Taint dev) d = snd (release d dev)
   \<and> (\<not> isTainted dev \<longrightarrow> Release False dev d = snd (release d dev))
   \<and> (Instance dev = Some i \<and> attachingOf d (StringValue (InstanceId i)) (Path dev) = Some (VolumeID dev) \<longrightarrow>
        attachingOf (Release False (Taint dev) d) (StringValue (InstanceId i)) (Path dev) = Some (VolumeID dev)
      \<and> attachingOf (Release True (Taint dev) d) (StringValue (InstanceId i)) (Path dev) = None
      \<and> (\<not> isTainted dev \<longrightarrow>
           attachingOf (Release False dev d) (StringValue (InstanceId i)) (Path dev) = None))"
proof -
  have t: "isTainted (Taint dev)" by (simp add: Taint_def)
  have 1: "Release False (Taint dev) d = d" using t by (simp add: Release_def)
  have 2: "Release True (Taint dev) d = snd (release d dev)"
    by (simp add: Release_def release_Taint)
  have 3: "\<not> isTainted dev \<Longrightarrow> Release False dev d = snd (release d dev)"
    by (simp add: Release_def)
  have 4: "attachingOf (snd (release d dev)) (StringValue (InstanceId i)) (Path dev) = None"
    if "Instance dev = Some i"
      and "attachingOf d (StringValue (InstanceId i)) (Path dev) = Some (VolumeID dev)"
    using that by (simp add: release_def getInstanceID_def attachingOf_def)
  show ?thesis using 1 2 3 4 by simp
qed

theorem Release_taint_witness:
  "attachingOf (Release False (Taint (newBlockDevice (Some i1) ''vol-A'' ''/dev/xvdf'' False)) d1)
      ''i-1'' ''/dev/xvdf'' = Some ''vol-A''
   \<and> attachingOf (Release True (Taint (newBlockDevice (Some i1) ''vol-A'' ''/dev/xvdf'' False)) d1)
      ''i-1'' ''/dev/xvdf'' = None
   \<and> attachingOf (Release False (newBlockDevice (Some i1) ''vol-A'' ''/dev/xvdf'' False) d1)
      ''i-1'' ''/dev/xvdf'' = None"
proof -
  let ?dev = "newBlockDevice (Some i1) ''vol-A'' ''/dev/xvdf'' False"
  have n: "StringValue (InstanceId i1) = ''i-1''"
    by (simp add: i1_def StringValue_def)
  have h: "Instance ?dev = Some i1
      \<and> attachingOf d1 (StringValue (InstanceId i1)) (Path ?dev) = Some (VolumeID ?dev)"
    by (simp add: n newBlockDevice_def attachingOf_def d1_def)
  have nt: "\<not> isTainted ?dev"
    by (simp add: newBlockDevice_def)
  have "attachingOf (Release False (Taint ?dev) d1) (StringValue (InstanceId i1)) (Path ?dev)
          = Some (VolumeID ?dev)
      \<and> attachingOf (Release True (Taint ?dev) d1) (StringValue (InstanceId i1)) (Path ?dev) = None
      \<and> attachingOf (Release False ?dev d1) (StringValue (InstanceId i1)) (Path ?dev) = None"
    using Release_taint [of ?dev d1 i1] h nt by blast
  then show ?thesis
    by (simp add: n newBlockDevice_def)
qed

section \<open>Allocating a new device\<close>

text \<open>
  Claim C6. When the volume id is not a value of the merged view, \<open>NewBlockDevice\<close>
  takes the node's allocator (a new one over the pool when the node has none), asks it
  for the next suffix and, when the allocator is exhausted, fails with the "too many EBS
  volumes" error; otherwise the suffix is one of the allocator's that is not a key of the
  merged view, the device returned has the path prefix + suffix and
  \<open>IsAlreadyAssigned = False\<close>, the in-flight map of the node holds path \<open>\<mapsto>\<close> volume id
  with every other entry as before, and the node's allocator is the old one with the
  suffix deprioritized (it is now last in the preference order).
\<close>

theorem NewBlockDevice_allocates:
  assumes inst: "instance = Some i"
    and node: "nodeID = StringValue (InstanceId i)"
    and view: "getDevicesInUse d instance nodeID = Ok m"
    and absent: "\<forall>k. m k \<noteq> Some volumeID"
  shows "(deviceAllocators d nodeID = None \<longrightarrow> allocatorOf pool d nodeID = NewDeviceAllocator pool)
       \<and> (GetNext (allocatorOf pool d nodeID) m = None \<longrightarrow>
            fst (NewBlockDevice pool ks d instance volumeID) =
              Err (Errorf ''too many EBS volumes attached to node %s'' [ArgS nodeID]))
       \<and> (\<forall>suffix. GetNext (allocatorOf pool d nodeID) m = Some suffix \<longrightarrow>
            suffix \<in> set (allocatorOf pool d nodeID) \<and> m suffix = None
          \<and> fst (NewBlockDevice pool ks d instance volumeID) =
              Ok \<lparr>Instance = instance, Path = devicePreffix @ suffix, VolumeID = volumeID,
                  IsAlreadyAssigned = False, isTainted = False\<rparr>
          \<and> attachingOf (snd (NewBlockDevice pool ks d instance volumeID)) nodeID
                (devicePreffix @ suffix) = Some volumeID
          \<and> (\<forall>n p. (n, p) \<noteq> (nodeID, devicePreffix @ suffix) \<longrightarrow>
                attachingOf (snd (NewBlockDevice pool ks d instance volumeID)) n p
                  = attachingOf d n p)
          \<and> deviceAllocators (snd (NewBlockDevice pool ks d instance volumeID)) nodeID =
              Some (Deprioritize (allocatorOf pool d nodeID) suffix)
          \<and> last (Deprioritize (allocatorOf pool d nodeID) suffix) = suffix
          \<and> (\<forall>n. n \<noteq> nodeID \<longrightarrow>
                deviceAllocators (snd (NewBlockDevice pool ks d instance volumeID)) n
                  = deviceAllocators d n))"
proof -
  have id: "getInstanceID instance = Inr nodeID"
    by (simp add: inst node getInstanceID_Some)
  have np: "getPath ks m volumeID = ''''"
    using absent by (rule getPath_absent)
  have lazy: "deviceAllocators d nodeID = None \<Longrightarrow> allocatorOf pool d nodeID = NewDeviceAllocator pool"
    by (simp add: allocatorOf_def)
  have ex: "GetNext (allocatorOf pool d nodeID) m = None \<Longrightarrow>
      fst (NewBlockDevice pool ks d instance volumeID) =
        Err (Errorf ''too many EBS volumes attached to node %s'' [ArgS nodeID])"
    by (simp add: NewBlockDevice_exhausted [OF id view np])
  have fresh: "suffix \<in> set (allocatorOf pool d nodeID) \<and> m suffix = None
          \<and> fst (NewBlockDevice pool ks d instance volumeID) =
              Ok \<lparr>Instance = instance, Path = devicePreffix @ suffix, VolumeID = volumeID,
                  IsAlreadyAssigned = False, isTainted = False\<rparr>
          \<and> attachingOf (snd (NewBlockDevice pool ks d instance volumeID)) nodeID
                (devicePreffix @ suffix) = Some volumeID
          \<and> (\<forall>n p. (n, p) \<noteq> (nodeID, devicePreffix @ suffix) \<longrightarrow>
                attachingOf (snd (NewBlockDevice pool ks d instance volumeID)) n p
                  = attachingOf d n p)
          \<and> deviceAllocators (snd (NewBlockDevice pool ks d instance volumeID)) nodeID =
              Some (Deprioritize (allocatorOf pool d nodeID) suffix)
          \<and> last (Deprioritize (allocatorOf pool d nodeID) suffix) = suffix
          \<and> (\<forall>n. n \<noteq> nodeID \<longrightarrow>
                deviceAllocators (snd (NewBlockDevice pool ks d instance volumeID)) n
                  = deviceAllocators d n)"
    if g: "GetNext (allocatorOf pool d nodeID) m = Some suffix" for suffix
  proof -
    note eq = NewBlockDevice_fresh [OF id view np g]
    have mem: "suffix \<in> set (allocatorOf pool d nodeID) \<and> m suffix = None"
      using g by (rule GetNext_Some)
    then have l: "last (Deprioritize (allocatorOf pool d nodeID) suffix) = suffix"
      by (simp add: Deprioritize_def)
    show ?thesis
      using mem l by (simp add: eq newBlockDevice_def attachingOf_def)
  qed
  show ?thesis using lazy ex fresh by blast
qed

theorem NewBlockDevice_allocates_witness:
  "fst (NewBlockDevice [''f'', ''g''] [] NewBlockDeviceManager (Some i1) ''vol-A'') =
     Ok \<lparr>Instance = Some i1, Path = ''/dev/xvdf'', VolumeID = ''vol-A'',
         IsAlreadyAssigned = False, isTainted = False\<rparr>
   \<and> attachingOf (snd (NewBlockDevice [''f'', ''g''] [] NewBlockDeviceManager (Some i1) ''vol-A''))
        ''i-1'' ''/dev/xvdf'' = Some ''vol-A''
   \<and> deviceAllocators (snd (NewBlockDevice [''f'', ''g''] [] NewBlockDeviceManager (Some i1) ''vol-A''))
        ''i-1'' = Some [''g'', ''f'']
   \<and> fst (NewBlockDevice [''f''] [''f''] NewBlockDeviceManager (Some i2) ''vol-B'') =
       Err (Errorf ''too many EBS volumes attached to node %s'' [ArgS ''i-2''])"
proof -
  have n1: "''i-1'' = StringValue (InstanceId i1)"
    by (simp add: i1_def StringValue_def)
  have v1: "getDevicesInUse NewBlockDeviceManager (Some i1) ''i-1'' = Ok Map.empty"
    by (simp add: getDevicesInUse_def i1_def attachingOf_def NewBlockDeviceManager_def)
  have a1: "allocatorOf [''f'', ''g''] NewBlockDeviceManager ''i-1'' = [''f'', ''g'']"
    by (simp add: allocatorOf_def NewBlockDeviceManager_def NewDeviceAllocator_def)
  have g1: "GetNext (allocatorOf [''f'', ''g''] NewBlockDeviceManager ''i-1'') Map.empty = Some ''f''"
    by (simp add: a1 GetNext_def)
  have n2: "''i-2'' = StringValue (InstanceId i2)"
    by (simp add: i2_def StringValue_def)
  have v2: "getDevicesInUse NewBlockDeviceManager (Some i2) ''i-2'' = Ok [''f'' \<mapsto> ''vol-X'']"
    by (simp add: getDevicesInUse_def i2_def attachingOf_def NewBlockDeviceManager_def
        stripName_def HasPrefix_def StringValue_def)
  have a2: "allocatorOf [''f''] NewBlockDeviceManager ''i-2'' = [''f'']"
    by (simp add: allocatorOf_def NewBlockDeviceManager_def NewDeviceAllocator_def)
  have g2: "GetNext (allocatorOf [''f''] NewBlockDeviceManager ''i-2'') [''f'' \<mapsto> ''vol-X''] = None"
    by (simp add: a2 GetNext_def)
  have ab2: "\<forall>k. [''f'' \<mapsto> ''vol-X''] k \<noteq> Some ''vol-B''"
    by simp
  from NewBlockDevice_allocates [OF refl n1 v1, of "''vol-A''" "[''f'', ''g'']" "[]"] g1
  have "fst (NewBlockDevice [''f'', ''g''] [] NewBlockDeviceManager (Some i1) ''vol-A'') =
          Ok \<lparr>Instance = Some i1, Path = devicePreffix @ ''f'', VolumeID = ''vol-A'',
              IsAlreadyAssigned = False, isTainted = False\<rparr>
      \<and> attachingOf (snd (NewBlockDevice [''f'', ''g''] [] NewBlockDeviceManager (Some i1) ''vol-A''))
          ''i-1'' (devicePreffix @ ''f'') = Some ''vol-A''
      \<and> deviceAllocators (snd (NewBlockDevice [''f'', ''g''] [] NewBlockDeviceManager (Some i1) ''vol-A''))
          ''i-1'' = Some (Deprioritize (allocatorOf [''f'', ''g''] NewBlockDeviceManager ''i-1'') ''f'')"
    by blast
  moreover from NewBlockDevice_allocates [OF refl n2 v2 ab2, of "[''f'']" "[''f'']"] g2
  have "fst (NewBlockDevice [''f''] [''f''] NewBlockDeviceManager (Some i2) ''vol-B'') =
       Err (Errorf ''too many EBS volumes attached to node %s'' [ArgS ''i-2''])"
    by blast
  ultimately show ?thesis
    by (simp add: devicePreffix_def a1 Deprioritize_def)
qed

section \<open>Exhaustion\<close>

text \<open>
  Claim C7, as stated, fails: on \<open>i2\<close>, whose only pool suffix \<open>f\<close> is taken, the
  message reads "too many EBS volumes attached to node i-2", not "too many volumes
  attached to node i-2", and the failed call has stored a new allocator for the node, so
  the allocator map is not as it was.
\<close>

theorem NewBlockDevice_exhaustion_counterexample:
  "fst (NewBlockDevice [''f''] [''f''] NewBlockDeviceManager (Some i2) ''vol-B'') =
     Err (Errorf ''too many EBS volumes attached to node %s'' [ArgS ''i-2''])
   \<and> Sprintf_s ''too many EBS volumes attached to node %s'' [''i-2'']
        = ''too many EBS volumes attached to node i-2''
   \<and> ''too many EBS volumes attached to node i-2'' \<noteq> ''too many volumes attached to node i-2''
   \<and> deviceAllocators NewBlockDeviceManager ''i-2'' = None
   \<and> deviceAllocators (snd (NewBlockDevice [''f''] [''f''] NewBlockDeviceManager (Some i2) ''vol-B''))
        ''i-2'' = Some [''f'']
   \<and> snd (NewBlockDevice [''f''] [''f''] NewBlockDeviceManager (Some i2) ''vol-B'')
        \<noteq> NewBlockDeviceManager"
proof -
  have id: "getInstanceID (Some i2) = Inr ''i-2''"
    by (simp add: getInstanceID_def i2_def StringValue_def)
  have v2: "getDevicesInUse NewBlockDeviceManager (Some i2) ''i-2'' = Ok [''f'' \<mapsto> ''vol-X'']"
    by (simp add: getDevicesInUse_def i2_def attachingOf_def NewBlockDeviceManager_def
        stripName_def HasPrefix_def StringValue_def)
  have np: "getPath [''f''] [''f'' \<mapsto> ''vol-X''] ''vol-B'' = ''''"
    by (simp add: getPath_def)
  have a2: "allocatorOf [''f''] NewBlockDeviceManager ''i-2'' = [''f'']"
    by (simp add: allocatorOf_def NewBlockDeviceManager_def NewDeviceAllocator_def)
  have g2: "GetNext (allocatorOf [''f''] NewBlockDeviceManager ''i-2'') [''f'' \<mapsto> ''vol-X''] = None"
    by (simp add: a2 GetNext_def)
  note eq = NewBlockDevice_exhausted [OF id v2 np g2]
  have 1: "fst (NewBlockDevice [''f''] [''f''] NewBlockDeviceManager (Some i2) ''vol-B'') =
     Err (Errorf ''too many EBS volumes attached to node %s'' [ArgS ''i-2''])"
    by (simp add: eq)
  have 2: "deviceAllocators (snd (NewBlockDevice [''f''] [''f''] NewBlockDeviceManager (Some i2) ''vol-B''))
        ''i-2'' = Some [''f'']"
    by (simp add: eq a2)
  have 3: "deviceAllocators NewBlockDeviceManager ''i-2'' = None"
    by (simp add: NewBlockDeviceManager_def)
  from 2 3 have 4: "snd (NewBlockDevice [''f''] [''f''] NewBlockDeviceManager (Some i2) ''vol-B'')
        \<noteq> NewBlockDeviceManager"
    by auto
  show ?thesis using 1 2 3 4 by simp
qed

text \<open>
  Claim C7, amended. When the volume is not found in the merged view and the allocator
  reports exhaustion, \<open>NewBlockDevice\<close> fails with the message "too many EBS volumes
  attached to node <id>"; the in-flight map is not modified; the allocator map is as
  before except that the node's allocator, when it had none, has been created over the
  pool; when the node already had an allocator the whole manager is unchanged.
\<close>

theorem NewBlockDevice_exhaustion:
  assumes inst: "instance = Some i"
    and node: "nodeID = StringValue (InstanceId i)"
    and view: "getDevicesInUse d instance nodeID = Ok m"
    and np: "getPath ks m volumeID = ''''"
    and full: "GetNext (allocatorOf pool d nodeID) m = None"
  shows "fst (NewBlockDevice pool ks d instance volumeID) =
           Err (Errorf ''too many EBS volumes attached to node %s'' [ArgS nodeID])
       \<and> Sprintf_s ''too many EBS volumes attached to node %s'' [nodeID]
           = ''too many EBS volumes attached to node '' @ nodeID
       \<and> attaching (snd (NewBlockDevice pool ks d instance volumeID)) = attaching d
       \<and> deviceAllocators (snd (NewBlockDevice pool ks d instance volumeID)) =
           (deviceAllocators d)(nodeID \<mapsto> allocatorOf pool d nodeID)
       \<and> (deviceAllocators d nodeID = None \<longrightarrow>
            allocatorOf pool d nodeID = NewDeviceAllocator pool)
       \<and> (deviceAllocators d nodeID \<noteq> None \<longrightarrow>
            snd (NewBlockDevice pool ks d instance volumeID) = d)"
proof -
  have id: "getInstanceID instance = Inr nodeID"
    by (simp add: inst node getInstanceID_Some)
  note eq = NewBlockDevice_exhausted [OF id view np full]
  have same: "(deviceAllocators d)(nodeID \<mapsto> allocatorOf pool d nodeID) = deviceAllocators d"
    if "deviceAllocators d nodeID \<noteq> None"
    using that by (auto simp: allocatorOf_def fun_eq_iff)
  have unchanged: "snd (NewBlockDevice pool ks d instance volumeID) = d"
    if "deviceAllocators d nodeID \<noteq> None"
    by (simp add: eq same [OF that])
  have lazy: "deviceAllocators d nodeID = None \<Longrightarrow>
      allocatorOf pool d nodeID = NewDeviceAllocator pool"
    by (simp add: allocatorOf_def)
  show ?thesis
    using unchanged lazy by (simp add: eq)
qed

theorem NewBlockDevice_exhaustion_witness:
  "fst (NewBlockDevice [''f''] [''f''] NewBlockDeviceManager (Some i2) ''vol-B'') =
     Err (Errorf ''too many EBS volumes attached to node %s'' [ArgS ''i-2''])
   \<and> attaching (snd (NewBlockDevice [''f''] [''f''] NewBlockDeviceManager (Some i2) ''vol-B''))
       = attaching NewBlockDeviceManager
   \<and> deviceAllocators (snd (NewBlockDevice [''f''] [''f''] NewBlockDeviceManager (Some i2) ''vol-B''))
       = (deviceAllocators NewBlockDeviceManager)(''i-2'' \<mapsto> [''f''])
   \<and> NewBlockDevice [''f''] [''f''] d2 (Some i2) ''vol-B'' =
       (Err (Errorf ''too many EBS volumes attached to node %s'' [ArgS ''i-2'']), d2)"
proof -
  have n2: "''i-2'' = StringValue (InstanceId i2)"
    by (simp add: i2_def StringValue_def)
  have v0: "getDevicesInUse NewBlockDeviceManager (Some i2) ''i-2'' = Ok [''f'' \<mapsto> ''vol-X'']"
    by (simp add: i2_view attachingOf_init)
  have v2: "getDevicesInUse d2 (Some i2) ''i-2'' = Ok [''f'' \<mapsto> ''vol-X'']"
    by (simp add: i2_view attachingOf_def d2_def)
  have np: "getPath [''f''] [''f'' \<mapsto> ''vol-X''] ''vol-B'' = ''''"
    by (simp add: getPath_def)
  have a0: "allocatorOf [''f''] NewBlockDeviceManager ''i-2'' = [''f'']"
    by (simp add: allocatorOf_def NewBlockDeviceManager_def NewDeviceAllocator_def)
  have a2: "allocatorOf [''f''] d2 ''i-2'' = [''f'']"
    by (simp add: allocatorOf_def d2_def)
  have g0: "GetNext (allocatorOf [''f''] NewBlockDeviceManager ''i-2'') [''f'' \<mapsto> ''vol-X''] = None"
    by (simp add: a0 GetNext_def)
  have g2: "GetNext (allocatorOf [''f''] d2 ''i-2'') [''f'' \<mapsto> ''vol-X''] = None"
    by (simp add: a2 GetNext_def)
  have p2: "deviceAllocators d2 ''i-2'' \<noteq> None"
    by (simp add: d2_def)
  from NewBlockDevice_exhaustion [OF refl n2 v0 np g0]
  have first: "fst (NewBlockDevice [''f''] [''f''] NewBlockDeviceManager (Some i2) ''vol-B'') =
       Err (Errorf ''too many EBS volumes attached to node %s'' [ArgS ''i-2''])
     \<and> attaching (snd (NewBlockDevice [''f''] [''f''] NewBlockDeviceManager (Some i2) ''vol-B''))
         = attaching NewBlockDeviceManager
     \<and> deviceAllocators (snd (NewBlockDevice [''f''] [''f''] NewBlockDeviceManager (Some i2) ''vol-B''))
         = (deviceAllocators NewBlockDeviceManager)
             (''i-2'' \<mapsto> allocatorOf [''f''] NewBlockDeviceManager ''i-2'')"
    by blast
  from NewBlockDevice_exhaustion [OF refl n2 v2 np g2] p2
  have "fst (NewBlockDevice [''f''] [''f''] d2 (Some i2) ''vol-B'') =
       Err (Errorf ''too many EBS volumes attached to node %s'' [ArgS ''i-2''])
     \<and> snd (NewBlockDevice [''f''] [''f''] d2 (Some i2) ''vol-B'') = d2"
    by blast
  then have second: "NewBlockDevice [''f''] [''f''] d2 (Some i2) ''vol-B'' =
       (Err (Errorf ''too many EBS volumes attached to node %s'' [ArgS ''i-2'']), d2)"
    by (simp add: prod_eq_iff)
  from first second show ?thesis by (simp add: a0)
qed

section \<open>A volume that is already assigned\<close>





section \<open>The two key formats of the merged view\<close>






lemma inflightPrefixed_None:
  "inflightPrefixed d \<Longrightarrow> \<not> HasPrefix p devicePreffix \<Longrightarrow> attachingOf d n p = None"
  unfolding inflightPrefixed_def by (cases "attachingOf d n p") auto















section \<open>Two outstanding reservations on one path\<close>

lemma GetNext_ignores_inflight:
  assumes "inflightPrefixed d" and "\<forall>s \<in> set al. \<not> HasPrefix s devicePreffix"
  shows "GetNext al (c ++ attachingOf d nodeID) = GetNext al c"
proof -
  have "(c ++ attachingOf d nodeID) s = None \<longleftrightarrow> c s = None" if "s \<in> set al" for s
    using that assms inflightPrefixed_None [of d s nodeID] by (simp add: map_add_def)
  then show ?thesis
    unfolding GetNext_def by (intro find_cong) auto
qed

lemma NewBlockDevice_reissues_reserved_suffix:
  assumes node: "nodeID = StringValue (InstanceId i)"
    and conf: "confirmedLoop (BlockDeviceMappings i) Map.empty = Ok c"
    and pref: "inflightPrefixed d"
    and pool: "\<forall>s \<in> set (allocatorOf pool d nodeID). \<not> HasPrefix s devicePreffix"
    and new: "\<forall>k. (c ++ attachingOf d nodeID) k \<noteq> Some volumeID"
    and nxt: "GetNext (allocatorOf pool d nodeID) c = Some suffix"
    and held: "attachingOf d nodeID (devicePreffix @ suffix) = Some other"
  shows "fst (NewBlockDevice pool ks d (Some i) volumeID) =
           Ok (newBlockDevice (Some i) volumeID (devicePreffix @ suffix) False)
       \<and> attachingOf (snd (NewBlockDevice pool ks d (Some i) volumeID)) nodeID
            (devicePreffix @ suffix) = Some volumeID
       \<and> other \<noteq> volumeID"
proof -
  let ?m = "c ++ attachingOf d nodeID"
  have id: "getInstanceID (Some i) = Inr nodeID"
    by (simp add: node getInstanceID_Some)
  have view: "getDevicesInUse d (Some i) nodeID = Ok ?m"
    using conf by (rule getDevicesInUse_Some)
  have np: "getPath ks ?m volumeID = ''''"
    using new by (rule getPath_absent)
  have g: "GetNext (allocatorOf pool d nodeID) ?m = Some suffix"
    using GetNext_ignores_inflight [OF pref pool, of c] nxt by simp
  have "?m (devicePreffix @ suffix) = Some other"
    using held by (simp add: map_add_def)
  moreover have "?m (devicePreffix @ suffix) \<noteq> Some volumeID"
    using new by (rule spec)
  ultimately have "other \<noteq> volumeID" by auto
  then show ?thesis
    by (simp add: NewBlockDevice_fresh [OF id view np g] attachingOf_def)
qed

text \<open>
  Claim C1 does not hold of the code. The allocator looks its suffixes up in the merged
  view, where an in-flight reservation is keyed by its full path, so a reserved suffix
  never counts as taken (\<open>GetNext_ignores_inflight\<close>): whenever the first suffix that
  is free in the confirmed view is reserved in flight for another volume, a new volume is
  given that same path (\<open>NewBlockDevice_reissues_reserved_suffix\<close>). Only the
  deprioritization keeps a reserved suffix away for a while. The run: on a node with the
  pool \<open>[f, g]\<close> and nothing attached, \<open>vol-A\<close> is given \<^verbatim>\<open>/dev/xvdf\<close> and \<open>vol-B\<close> \<^verbatim>\<open>/dev/xvdg\<close>; \<open>vol-B\<close> is released.
  One suffix (\<open>g\<close>) is free and \<open>vol-A\<close> is still outstanding on \<^verbatim>\<open>/dev/xvdf\<close>, yet
  the one request for \<open>vol-C\<close> is given \<^verbatim>\<open>/dev/xvdf\<close> too; the in-flight entry of
  \<open>vol-A\<close> is overwritten, and releasing \<open>vol-A\<close> afterwards fails with the mismatch
  error.
\<close>

theorem NewBlockDevice_reuses_outstanding_path:
  "NewBlockDevice [''f'', ''g''] [] NewBlockDeviceManager (Some i1) ''vol-A'' =
     (Ok (newBlockDevice (Some i1) ''vol-A'' ''/dev/xvdf'' False), s1)
   \<and> NewBlockDevice [''f'', ''g''] [''/dev/xvdf''] s1 (Some i1) ''vol-B'' =
     (Ok (newBlockDevice (Some i1) ''vol-B'' ''/dev/xvdg'' False), s2)
   \<and> release s2 (newBlockDevice (Some i1) ''vol-B'' ''/dev/xvdg'' False) = (None, s3)
   \<and> attachingOf s3 ''i-1'' ''/dev/xvdf'' = Some ''vol-A''
   \<and> attachingOf s3 ''i-1'' ''/dev/xvdg'' = None
   \<and> getDevicesInUse s3 (Some i1) ''i-1'' = Ok [''/dev/xvdf'' \<mapsto> ''vol-A'']
   \<and> iterationOrder [''/dev/xvdf''] [''/dev/xvdf'' \<mapsto> ''vol-A'']
   \<and> NewBlockDevice [''f'', ''g''] [''/dev/xvdf''] s3 (Some i1) ''vol-C'' =
     (Ok (newBlockDevice (Some i1) ''vol-C'' ''/dev/xvdf'' False), s4)
   \<and> attachingOf s4 ''i-1'' ''/dev/xvdf'' = Some ''vol-C''
   \<and> release s4 (newBlockDevice (Some i1) ''vol-A'' ''/dev/xvdf'' False) =
     (Some (Errorf ''release on device %q assigned to different volume: %q vs %q''
              [ArgS ''/dev/xvdf'', ArgS ''vol-A'', ArgS ''vol-C'']), s4)"
proof -
  have a3: "attachingOf s3 ''i-1'' = [''/dev/xvdf'' \<mapsto> ''vol-A'']"
    by (simp add: attachingOf_def s3_def)
  have a4: "attachingOf s4 ''i-1'' = [''/dev/xvdf'' \<mapsto> ''vol-C'']"
    by (simp add: attachingOf_def s4_def)
  have r: "release s4 (newBlockDevice (Some i1) ''vol-A'' ''/dev/xvdf'' False) =
     (Some (Errorf ''release on device %q assigned to different volume: %q vs %q''
              [ArgS ''/dev/xvdf'', ArgS ''vol-A'', ArgS ''vol-C'']), s4)"
    by (simp add: release_def newBlockDevice_def i1_id a4)
  show ?thesis
    by (simp add: run_step1 run_step2 run_step3 run_step4 r a3 a4 i1_view iterationOrder_def)
qed

section \<open>Attaching a disk\<close>

lemma AttachDisk_body_flag:
  "fst (snd (AttachDisk_body c volumeID nodeID mntDevice alreadyAttached w))"
  by (auto simp: AttachDisk_body_def Let_def split: prod.splits sum.splits)

lemma AttachDisk_already:
  assumes "GetDevice (dm c) nodeID volumeID w0 = (Inr (mntDevice, True), w1)"
  shows "AttachDisk c volumeID nodeID w0 =
           (Inr mntDevice,
            [CallGetDevice nodeID volumeID, CallReleaseDevice nodeID volumeID mntDevice],
            snd (ReleaseDevice (dm c) nodeID volumeID mntDevice w1))"
  using assms by (simp add: AttachDisk_def AttachDisk_body_def)

lemma AttachDisk_attach_fails:
  assumes "GetDevice (dm c) nodeID volumeID w0 = (Inr (mntDevice, False), w1)"
    and "AttachVolume (ec2 c) (AttachVolumeInput mntDevice nodeID volumeID) w1 = (Inl err, w2)"
  shows "AttachDisk c volumeID nodeID w0 =
           (Inl (Errorf ''could not attach volume %q to node %q: %v''
                   [ArgS volumeID, ArgS nodeID, ArgE err]),
            [CallGetDevice nodeID volumeID,
             CallAttachVolume (AttachVolumeInput mntDevice nodeID volumeID),
             CallReleaseDevice nodeID volumeID mntDevice],
            snd (ReleaseDevice (dm c) nodeID volumeID mntDevice w2))"
  using assms by (simp add: AttachDisk_def AttachDisk_body_def)

lemma AttachDisk_attach_ok:
  assumes "GetDevice (dm c) nodeID volumeID w0 = (Inr (mntDevice, False), w1)"
    and "AttachVolume (ec2 c) (AttachVolumeInput mntDevice nodeID volumeID) w1 = (Inr resp, w2)"
  shows "AttachDisk c volumeID nodeID w0 =
           (Inr mntDevice,
            [CallGetDevice nodeID volumeID,
             CallAttachVolume (AttachVolumeInput mntDevice nodeID volumeID),
             CallReleaseDevice nodeID volumeID mntDevice],
            snd (ReleaseDevice (dm c) nodeID volumeID mntDevice w2))"
  using assms by (simp add: AttachDisk_def AttachDisk_body_def)

lemma registryDM_GetDevice_i1:
  "GetDevice (registryDM [''f'', ''g''] [] i1) ''i-1'' ''vol-A'' NewBlockDeviceManager =
     (Inr (''/dev/xvdf'', False), s1)"
  by (simp add: registryDM_def run_step1 newBlockDevice_def)

lemma registryDM_ReleaseDevice_i1:
  "ReleaseDevice (registryDM [''f'', ''g''] [] i1) ''i-1'' ''vol-A'' ''/dev/xvdf'' s1 = (None, s5)"
  by (simp add: registryDM_def run_release1)

lemma registryDM_GetDevice_i2:
  "GetDevice (registryDM [''f'', ''g''] [''f''] i2) ''i-2'' ''vol-X'' NewBlockDeviceManager =
     (Inr (''f'', True), NewBlockDeviceManager)"
proof -
  have v: "getDevicesInUse NewBlockDeviceManager (Some i2) ''i-2'' = Ok [''f'' \<mapsto> ''vol-X'']"
    by (simp add: i2_view attachingOf_init)
  have gp: "getPath [''f''] [''f'' \<mapsto> ''vol-X''] ''vol-X'' = ''f''"
    by (simp add: getPath_def)
  have ne: "getPath [''f''] [''f'' \<mapsto> ''vol-X''] ''vol-X'' \<noteq> ''''"
    by (simp add: gp)
  show ?thesis
    by (simp add: registryDM_def NewBlockDevice_assigned [OF i2_id v ne] gp newBlockDevice_def)
qed

lemma registryDM_ReleaseDevice_i2:
  "ReleaseDevice (registryDM [''f'', ''g''] [''f''] i2) ''i-2'' ''vol-X'' ''f'' NewBlockDeviceManager =
     (Some (Errorf ''release called for disk %q when attach not in progress'' [ArgS ''vol-X'']),
      NewBlockDeviceManager)"
proof -
  have id: "getInstanceID (Some i2) = Inr ''i-2''"
    by (simp add: getInstanceID_def i2_def StringValue_def)
  show ?thesis
    by (simp add: registryDM_def release_def newBlockDevice_def id attachingOf_init)
qed

text \<open>
  Claim C5. Once \<^verbatim>\<open>GetDevice\<close> has answered with a device, every way \<^verbatim>\<open>AttachDisk\<close>
  ends calls \<^verbatim>\<open>ReleaseDevice\<close> exactly once, as its last call, on that node, volume and
  device, and the body always leaves with \<^verbatim>\<open>attachEnded\<close> set. When the device was
  already attached no attach call is made. When the attach call fails the release runs on
  the state the failed call left and the error returned is "could not attach volume ..."
  with the cause as its last argument; when it succeeds the release runs too and the
  device is returned.
\<close>

theorem AttachDisk_release_once:
  assumes dev: "GetDevice (dm c) nodeID volumeID w0 = (Inr (mntDevice, alreadyAttached), w1)"
  shows "length (filter isReleaseCall (fst (snd (AttachDisk c volumeID nodeID w0)))) = 1
       \<and> last (fst (snd (AttachDisk c volumeID nodeID w0)))
           = CallReleaseDevice nodeID volumeID mntDevice
       \<and> fst (snd (AttachDisk_body c volumeID nodeID mntDevice alreadyAttached w1))
       \<and> (alreadyAttached \<longrightarrow>
            AttachDisk c volumeID nodeID w0 =
              (Inr mntDevice,
               [CallGetDevice nodeID volumeID, CallReleaseDevice nodeID volumeID mntDevice],
               snd (ReleaseDevice (dm c) nodeID volumeID mntDevice w1)))
       \<and> (alreadyAttached \<longrightarrow>
            filter isAttachCall (fst (snd (AttachDisk c volumeID nodeID w0))) = [])
       \<and> (\<not> alreadyAttached \<longrightarrow>
            (\<forall>err w2.
               AttachVolume (ec2 c) (AttachVolumeInput mntDevice nodeID volumeID) w1 = (Inl err, w2)
               \<longrightarrow> AttachDisk c volumeID nodeID w0 =
                     (Inl (Errorf ''could not attach volume %q to node %q: %v''
                             [ArgS volumeID, ArgS nodeID, ArgE err]),
                      [CallGetDevice nodeID volumeID,
                       CallAttachVolume (AttachVolumeInput mntDevice nodeID volumeID),
                       CallReleaseDevice nodeID volumeID mntDevice],
                      snd (ReleaseDevice (dm c) nodeID volumeID mntDevice w2))))
       \<and> (\<not> alreadyAttached \<longrightarrow>
            (\<forall>resp w2.
               AttachVolume (ec2 c) (AttachVolumeInput mntDevice nodeID volumeID) w1 = (Inr resp, w2)
               \<longrightarrow> AttachDisk c volumeID nodeID w0 =
                     (Inr mntDevice,
                      [CallGetDevice nodeID volumeID,
                       CallAttachVolume (AttachVolumeInput mntDevice nodeID volumeID),
                       CallReleaseDevice nodeID volumeID mntDevice],
                      snd (ReleaseDevice (dm c) nodeID volumeID mntDevice w2))))"
proof (cases alreadyAttached)
  case True
  with dev have d: "GetDevice (dm c) nodeID volumeID w0 = (Inr (mntDevice, True), w1)" by simp
  show ?thesis
    using True by (simp add: AttachDisk_already [OF d] AttachDisk_body_flag)
next
  case False
  with dev have d: "GetDevice (dm c) nodeID volumeID w0 = (Inr (mntDevice, False), w1)" by simp
  obtain r w2 where a: "AttachVolume (ec2 c) (AttachVolumeInput mntDevice nodeID volumeID) w1 = (r, w2)"
    by (cases "AttachVolume (ec2 c) (AttachVolumeInput mntDevice nodeID volumeID) w1")
  show ?thesis
  proof (cases r)
    case (Inl err)
    with a have a': "AttachVolume (ec2 c) (AttachVolumeInput mntDevice nodeID volumeID) w1 = (Inl err, w2)"
      by simp
    show ?thesis
      using False a' by (simp add: AttachDisk_attach_fails [OF d a'] AttachDisk_body_flag)
  next
    case (Inr resp)
    with a have a': "AttachVolume (ec2 c) (AttachVolumeInput mntDevice nodeID volumeID) w1 = (Inr resp, w2)"
      by simp
    show ?thesis
      using False a' by (simp add: AttachDisk_attach_ok [OF d a'] AttachDisk_body_flag)
  qed
qed

theorem AttachDisk_release_once_witness:
  "AttachDisk cloud1Failing ''vol-A'' ''i-1'' NewBlockDeviceManager =
     (Inl (Errorf ''could not attach volume %q to node %q: %v''
             [ArgS ''vol-A'', ArgS ''i-1'', ArgE (Cause ''RequestLimitExceeded'')]),
      [CallGetDevice ''i-1'' ''vol-A'',
       CallAttachVolume (AttachVolumeInput ''/dev/xvdf'' ''i-1'' ''vol-A''),
       CallReleaseDevice ''i-1'' ''vol-A'' ''/dev/xvdf''],
      s5)
   \<and> attachingOf s1 ''i-1'' ''/dev/xvdf'' = Some ''vol-A''
   \<and> attachingOf s5 ''i-1'' ''/dev/xvdf'' = None
   \<and> AttachDisk cloud1Accepting ''vol-A'' ''i-1'' NewBlockDeviceManager =
     (Inr ''/dev/xvdf'',
      [CallGetDevice ''i-1'' ''vol-A'',
       CallAttachVolume (AttachVolumeInput ''/dev/xvdf'' ''i-1'' ''vol-A''),
       CallReleaseDevice ''i-1'' ''vol-A'' ''/dev/xvdf''],
      s5)
   \<and> AttachDisk cloud2Accepting ''vol-X'' ''i-2'' NewBlockDeviceManager =
     (Inr ''f'',
      [CallGetDevice ''i-2'' ''vol-X'', CallReleaseDevice ''i-2'' ''vol-X'' ''f''],
      NewBlockDeviceManager)"
proof -
  have g1: "GetDevice (dm cloud1Failing) ''i-1'' ''vol-A'' NewBlockDeviceManager =
      (Inr (''/dev/xvdf'', False), s1)"
    by (simp add: cloud1Failing_def registryDM_GetDevice_i1)
  have a1: "AttachVolume (ec2 cloud1Failing) (AttachVolumeInput ''/dev/xvdf'' ''i-1'' ''vol-A'') s1 =
      (Inl (Cause ''RequestLimitExceeded''), s1)"
    by (simp add: cloud1Failing_def ec2Failing_def)
  have r1: "snd (ReleaseDevice (dm cloud1Failing) ''i-1'' ''vol-A'' ''/dev/xvdf'' s1) = s5"
    by (simp add: cloud1Failing_def registryDM_ReleaseDevice_i1)
  note fails = AttachDisk_release_once [OF g1, THEN conjunct2, THEN conjunct2, THEN conjunct2,
      THEN conjunct2, THEN conjunct2, THEN conjunct1, rule_format, OF _ a1]
  have one: "AttachDisk cloud1Failing ''vol-A'' ''i-1'' NewBlockDeviceManager =
     (Inl (Errorf ''could not attach volume %q to node %q: %v''
             [ArgS ''vol-A'', ArgS ''i-1'', ArgE (Cause ''RequestLimitExceeded'')]),
      [CallGetDevice ''i-1'' ''vol-A'',
       CallAttachVolume (AttachVolumeInput ''/dev/xvdf'' ''i-1'' ''vol-A''),
       CallReleaseDevice ''i-1'' ''vol-A'' ''/dev/xvdf''],
      s5)"
    using fails by (simp add: r1)
  have g2: "GetDevice (dm cloud1Accepting) ''i-1'' ''vol-A'' NewBlockDeviceManager =
      (Inr (''/dev/xvdf'', False), s1)"
    by (simp add: cloud1Accepting_def registryDM_GetDevice_i1)
  have a2: "AttachVolume (ec2 cloud1Accepting) (AttachVolumeInput ''/dev/xvdf'' ''i-1'' ''vol-A'') s1 =
      (Inr (VolumeAttachment ''/dev/xvdf'' ''i-1'' ''vol-A'' ''attaching''), s1)"
    by (simp add: cloud1Accepting_def ec2Accepting_def)
  have r2: "snd (ReleaseDevice (dm cloud1Accepting) ''i-1'' ''vol-A'' ''/dev/xvdf'' s1) = s5"
    by (simp add: cloud1Accepting_def registryDM_ReleaseDevice_i1)
  note succeeds = AttachDisk_release_once [OF g2, THEN conjunct2, THEN conjunct2, THEN conjunct2,
      THEN conjunct2, THEN conjunct2, THEN conjunct2, rule_format, OF _ a2]
  have two: "AttachDisk cloud1Accepting ''vol-A'' ''i-1'' NewBlockDeviceManager =
     (Inr ''/dev/xvdf'',
      [CallGetDevice ''i-1'' ''vol-A'',
       CallAttachVolume (AttachVolumeInput ''/dev/xvdf'' ''i-1'' ''vol-A''),
       CallReleaseDevice ''i-1'' ''vol-A'' ''/dev/xvdf''],
      s5)"
    using succeeds by (simp add: r2)
  have g3: "GetDevice (dm cloud2Accepting) ''i-2'' ''vol-X'' NewBlockDeviceManager =
      (Inr (''f'', True), NewBlockDeviceManager)"
    by (simp add: cloud2Accepting_def registryDM_GetDevice_i2)
  have r3: "snd (ReleaseDevice (dm cloud2Accepting) ''i-2'' ''vol-X'' ''f'' NewBlockDeviceManager)
      = NewBlockDeviceManager"
    by (simp add: cloud2Accepting_def registryDM_ReleaseDevice_i2)
  note already = AttachDisk_release_once [OF g3, THEN conjunct2, THEN conjunct2, THEN conjunct2,
      THEN conjunct1, rule_format]
  have three: "AttachDisk cloud2Accepting ''vol-X'' ''i-2'' NewBlockDeviceManager =
     (Inr ''f'',
      [CallGetDevice ''i-2'' ''vol-X'', CallReleaseDevice ''i-2'' ''vol-X'' ''f''],
      NewBlockDeviceManager)"
    using already by (simp add: r3)
  have s: "attachingOf s1 ''i-1'' ''/dev/xvdf'' = Some ''vol-A''
      \<and> attachingOf s5 ''i-1'' ''/dev/xvdf'' = None"
    by (simp add: attachingOf_def s1_def s5_def)
  from one two three s show ?thesis by blast
qed

text \<open>
  With the registry as device manager the release does remove the reservation: when the
  device was newly reserved and the cloud refuses the attach call, the in-flight entry
  that the reservation made is gone when \<^verbatim>\<open>AttachDisk\<close> returns.
\<close>

lemma NewBlockDevice_Ok_fresh:
  assumes "NewBlockDevice pool ks d (Some i) volumeID = (Ok dev, d')"
    and "\<not> IsAlreadyAssigned dev"
  shows "dev = newBlockDevice (Some i) volumeID (Path dev) False
       \<and> attachingOf d' (StringValue (InstanceId i)) (Path dev) = Some volumeID"
  using assms
  by (auto simp: NewBlockDevice_def Let_def getInstanceID_def newBlockDevice_def attachingOf_def
      split: result.splits if_splits option.splits prod.splits)

lemma release_deletes:
  assumes "attachingOf d (StringValue (InstanceId i)) p = Some volumeID"
  shows "attachingOf (snd (release d (newBlockDevice (Some i) volumeID p False)))
           (StringValue (InstanceId i)) p = None"
  using assms
  by (simp add: release_def getInstanceID_def newBlockDevice_def attachingOf_def)

lemma registryDM_failed_attach_frees_path:
  assumes get: "GetDevice (registryDM pool ks inst) nodeID volumeID r0 = (Inr (p, False), r1)"
    and refuse: "AttachVolume e (AttachVolumeInput p nodeID volumeID) r1 = (Inl err, r1)"
  shows "attachingOf r1 (StringValue (InstanceId inst)) p = Some volumeID
       \<and> attachingOf
            (snd (snd (AttachDisk \<lparr>dm = registryDM pool ks inst, ec2 = e\<rparr> volumeID nodeID r0)))
            (StringValue (InstanceId inst)) p = None"
proof -
  let ?c = "\<lparr>dm = registryDM pool ks inst, ec2 = e\<rparr>"
  obtain res r' where n: "NewBlockDevice pool ks r0 (Some inst) volumeID = (res, r')"
    by (cases "NewBlockDevice pool ks r0 (Some inst) volumeID")
  with get obtain dev where dev: "res = Ok dev" "Path dev = p" "\<not> IsAlreadyAssigned dev" "r' = r1"
    by (cases res) (auto simp: registryDM_def)
  from NewBlockDevice_Ok_fresh [of pool ks r0 inst volumeID dev r1] n dev
  have held: "attachingOf r1 (StringValue (InstanceId inst)) p = Some volumeID"
    by simp
  have g: "GetDevice (dm ?c) nodeID volumeID r0 = (Inr (p, False), r1)"
    using get by simp
  have a: "AttachVolume (ec2 ?c) (AttachVolumeInput p nodeID volumeID) r1 = (Inl err, r1)"
    using refuse by simp
  have rel: "ReleaseDevice (dm ?c) nodeID volumeID p r1 =
      release r1 (newBlockDevice (Some inst) volumeID p False)"
    by (simp add: registryDM_def)
  have "snd (snd (AttachDisk ?c volumeID nodeID r0)) =
      snd (release r1 (newBlockDevice (Some inst) volumeID p False))"
    unfolding AttachDisk_attach_fails [OF g a] rel by simp
  with held release_deletes [OF held] show ?thesis by simp
qed

text \<open>
  Claim C4 does not hold of the code: the waiting and the verification are commented
  out. With an API client that accepts the attach request but reports the volume still
  attaching, at another device of another instance, \<^verbatim>\<open>AttachDisk\<close> returns the requested
  path as success after three calls, none of which asks the cloud for the state of the
  attachment.
\<close>

theorem AttachDisk_returns_without_waiting:
  "AttachDisk cloud1Accepting ''vol-A'' ''i-1'' NewBlockDeviceManager =
     (Inr ''/dev/xvdf'',
      [CallGetDevice ''i-1'' ''vol-A'',
       CallAttachVolume (AttachVolumeInput ''/dev/xvdf'' ''i-1'' ''vol-A''),
       CallReleaseDevice ''i-1'' ''vol-A'' ''/dev/xvdf''],
      s5)
   \<and> filter isDescribeCall (fst (snd (AttachDisk cloud1Accepting ''vol-A'' ''i-1'' NewBlockDeviceManager))) = []
   \<and> DescribeVolumes (ec2 cloud1Accepting) ''vol-A'' s5 =
       (Inr [VolumeAttachment ''/dev/xvdz'' ''i-9'' ''vol-A'' ''attaching''], s5)"
proof -
  have g: "GetDevice (dm cloud1Accepting) ''i-1'' ''vol-A'' NewBlockDeviceManager =
      (Inr (''/dev/xvdf'', False), s1)"
    by (simp add: cloud1Accepting_def registryDM_GetDevice_i1)
  have a: "AttachVolume (ec2 cloud1Accepting) (AttachVolumeInput ''/dev/xvdf'' ''i-1'' ''vol-A'') s1 =
      (Inr (VolumeAttachment ''/dev/xvdf'' ''i-1'' ''vol-A'' ''attaching''), s1)"
    by (simp add: cloud1Accepting_def ec2Accepting_def)
  have r: "snd (ReleaseDevice (dm cloud1Accepting) ''i-1'' ''vol-A'' ''/dev/xvdf'' s1) = s5"
    by (simp add: cloud1Accepting_def registryDM_ReleaseDevice_i1)
  have d: "DescribeVolumes (ec2 cloud1Accepting) ''vol-A'' s5 =
       (Inr [VolumeAttachment ''/dev/xvdz'' ''i-9'' ''vol-A'' ''attaching''], s5)"
    by (simp add: cloud1Accepting_def ec2Accepting_def)
  show ?thesis
    by (simp add: AttachDisk_attach_ok [OF g a] r d)
qed

section \<open>Detaching a disk\<close>

lemma DetachDisk_detach_fails:
  assumes "GetAssignedDevice (dm c) nodeID volumeID w0 = (Inr mntDevice, w1)"
    and "DetachVolume (ec2 c) (DetachVolumeInput nodeID volumeID) w1 = (Inl err, w2)"
  shows "DetachDisk c volumeID nodeID w0 =
           (Some (Errorf ''could not detach volume %q from node %q: %v''
                    [ArgS volumeID, ArgS nodeID, ArgE err]),
            [CallGetAssignedDevice nodeID volumeID,
             CallDetachVolume (DetachVolumeInput nodeID volumeID)], w2)"
  using assms by (simp add: DetachDisk_def)

lemma DetachDisk_detach_ok:
  assumes "GetAssignedDevice (dm c) nodeID volumeID w0 = (Inr mntDevice, w1)"
    and "DetachVolume (ec2 c) (DetachVolumeInput nodeID volumeID) w1 = (Inr resp, w2)"
  shows "DetachDisk c volumeID nodeID w0 =
           (if mntDevice \<noteq> '''' then
              (None,
               [CallGetAssignedDevice nodeID volumeID,
                CallDetachVolume (DetachVolumeInput nodeID volumeID),
                CallReleaseDevice nodeID volumeID mntDevice],
               snd (ReleaseDevice (dm c) nodeID volumeID mntDevice w2))
            else
              (None,
               [CallGetAssignedDevice nodeID volumeID,
                CallDetachVolume (DetachVolumeInput nodeID volumeID)], w2))"
  using assms by (simp add: DetachDisk_def)

lemma registryDM_GetAssignedDevice_i2:
  "GetAssignedDevice (registryDM [''f'', ''g''] [''f''] i2) ''i-2'' ''vol-X'' NewBlockDeviceManager =
     (Inr ''f'', NewBlockDeviceManager)"
proof -
  have id: "getInstanceID (Some i2) = Inr ''i-2''"
    by (simp add: getInstanceID_def i2_def StringValue_def)
  have v: "getDevicesInUse NewBlockDeviceManager (Some i2) ''i-2'' = Ok [''f'' \<mapsto> ''vol-X'']"
    using getDevicesInUse_Some [OF i2_confirmed, of NewBlockDeviceManager "''i-2''"]
    by (simp add: attachingOf_init)
  have gp: "getPath [''f''] [''f'' \<mapsto> ''vol-X''] ''vol-X'' = ''f''"
    by (simp add: getPath_def)
  show ?thesis
    by (simp add: registryDM_def GetBlockDevice_found [OF id v] gp newBlockDevice_def)
qed

lemma registryDM_GetAssignedDevice_absent:
  "GetAssignedDevice (registryDM [''f'', ''g''] [''f''] i2) ''i-2'' ''vol-Z'' NewBlockDeviceManager =
     (Inr '''', NewBlockDeviceManager)"
proof -
  have v: "getDevicesInUse NewBlockDeviceManager (Some i2) ''i-2'' = Ok [''f'' \<mapsto> ''vol-X'']"
    by (simp add: i2_view attachingOf_init)
  have gp: "getPath [''f''] [''f'' \<mapsto> ''vol-X''] ''vol-Z'' = ''''"
    by (simp add: getPath_def)
  show ?thesis
    by (simp add: registryDM_def GetBlockDevice_found [OF i2_id v] gp newBlockDevice_def)
qed

text \<open>
  Claim C8. After the lookup of the device: when the detach call fails, \<^verbatim>\<open>DetachDisk\<close>
  returns "could not detach volume ..." with the cause as its last argument, makes no
  release call and leaves the state as the failed call left it; when the detach call
  succeeds, \<^verbatim>\<open>DetachDisk\<close> returns no error, whatever the release returns, and the
  release is called (once, last) exactly when the device path looked up is not empty.
\<close>

theorem DetachDisk_outcomes:
  assumes dev: "GetAssignedDevice (dm c) nodeID volumeID w0 = (Inr mntDevice, w1)"
  shows "(\<forall>err w2.
            DetachVolume (ec2 c) (DetachVolumeInput nodeID volumeID) w1 = (Inl err, w2) \<longrightarrow>
              DetachDisk c volumeID nodeID w0 =
                (Some (Errorf ''could not detach volume %q from node %q: %v''
                         [ArgS volumeID, ArgS nodeID, ArgE err]),
                 [CallGetAssignedDevice nodeID volumeID,
                  CallDetachVolume (DetachVolumeInput nodeID volumeID)], w2)
            \<and> filter isReleaseCall (fst (snd (DetachDisk c volumeID nodeID w0))) = [])
       \<and> (\<forall>resp w2.
            DetachVolume (ec2 c) (DetachVolumeInput nodeID volumeID) w1 = (Inr resp, w2) \<longrightarrow>
              fst (DetachDisk c volumeID nodeID w0) = None
            \<and> (mntDevice \<noteq> '''' \<longrightarrow>
                 snd (DetachDisk c volumeID nodeID w0) =
                   ([CallGetAssignedDevice nodeID volumeID,
                     CallDetachVolume (DetachVolumeInput nodeID volumeID),
                     CallReleaseDevice nodeID volumeID mntDevice],
                    snd (ReleaseDevice (dm c) nodeID volumeID mntDevice w2)))
            \<and> (mntDevice = '''' \<longrightarrow>
                 snd (DetachDisk c volumeID nodeID w0) =
                   ([CallGetAssignedDevice nodeID volumeID,
                     CallDetachVolume (DetachVolumeInput nodeID volumeID)], w2))
            \<and> (\<forall>e. fst (ReleaseDevice (dm c) nodeID volumeID mntDevice w2) = Some e \<longrightarrow>
                 fst (DetachDisk c volumeID nodeID w0) = None))"
proof -
  have fails: "DetachDisk c volumeID nodeID w0 =
                (Some (Errorf ''could not detach volume %q from node %q: %v''
                         [ArgS volumeID, ArgS nodeID, ArgE err]),
                 [CallGetAssignedDevice nodeID volumeID,
                  CallDetachVolume (DetachVolumeInput nodeID volumeID)], w2)
            \<and> filter isReleaseCall (fst (snd (DetachDisk c volumeID nodeID w0))) = []"
    if "DetachVolume (ec2 c) (DetachVolumeInput nodeID volumeID) w1 = (Inl err, w2)" for err w2
    by (simp add: DetachDisk_detach_fails [OF dev that])
  have ok: "fst (DetachDisk c volumeID nodeID w0) = None
            \<and> (mntDevice \<noteq> '''' \<longrightarrow>
                 snd (DetachDisk c volumeID nodeID w0) =
                   ([CallGetAssignedDevice nodeID volumeID,
                     CallDetachVolume (DetachVolumeInput nodeID volumeID),
                     CallReleaseDevice nodeID volumeID mntDevice],
                    snd (ReleaseDevice (dm c) nodeID volumeID mntDevice w2)))
            \<and> (mntDevice = '''' \<longrightarrow>
                 snd (DetachDisk c volumeID nodeID w0) =
                   ([CallGetAssignedDevice nodeID volumeID,
                     CallDetachVolume (DetachVolumeInput nodeID volumeID)], w2))"
    if "DetachVolume (ec2 c) (DetachVolumeInput nodeID volumeID) w1 = (Inr resp, w2)" for resp w2
    by (simp add: DetachDisk_detach_ok [OF dev that])
  show ?thesis using fails ok by blast
qed

theorem DetachDisk_outcomes_witness:
  "DetachDisk cloud2Failing ''vol-X'' ''i-2'' NewBlockDeviceManager =
     (Some (Errorf ''could not detach volume %q from node %q: %v''
              [ArgS ''vol-X'', ArgS ''i-2'', ArgE (Cause ''RequestLimitExceeded'')]),
      [CallGetAssignedDevice ''i-2'' ''vol-X'',
       CallDetachVolume (DetachVolumeInput ''i-2'' ''vol-X'')],
      NewBlockDeviceManager)
   \<and> ReleaseDevice (dm cloud2Accepting) ''i-2'' ''vol-X'' ''f'' NewBlockDeviceManager =
       (Some (Errorf ''release called for disk %q when attach not in progress'' [ArgS ''vol-X'']),
        NewBlockDeviceManager)
   \<and> DetachDisk cloud2Accepting ''vol-X'' ''i-2'' NewBlockDeviceManager =
       (None,
        [CallGetAssignedDevice ''i-2'' ''vol-X'',
         CallDetachVolume (DetachVolumeInput ''i-2'' ''vol-X''),
         CallReleaseDevice ''i-2'' ''vol-X'' ''f''],
        NewBlockDeviceManager)
   \<and> DetachDisk cloud2Accepting ''vol-Z'' ''i-2'' NewBlockDeviceManager =
       (None,
        [CallGetAssignedDevice ''i-2'' ''vol-Z'',
         CallDetachVolume (DetachVolumeInput ''i-2'' ''vol-Z'')],
        NewBlockDeviceManager)"
proof -
  have g1: "GetAssignedDevice (dm cloud2Failing) ''i-2'' ''vol-X'' NewBlockDeviceManager =
      (Inr ''f'', NewBlockDeviceManager)"
    by (simp add: cloud2Failing_def registryDM_GetAssignedDevice_i2)
  have d1: "DetachVolume (ec2 cloud2Failing) (DetachVolumeInput ''i-2'' ''vol-X'')
      NewBlockDeviceManager = (Inl (Cause ''RequestLimitExceeded''), NewBlockDeviceManager)"
    by (simp add: cloud2Failing_def ec2Failing_def)
  have g2: "GetAssignedDevice (dm cloud2Accepting) ''i-2'' ''vol-X'' NewBlockDeviceManager =
      (Inr ''f'', NewBlockDeviceManager)"
    by (simp add: cloud2Accepting_def registryDM_GetAssignedDevice_i2)
  have d2: "DetachVolume (ec2 cloud2Accepting) (DetachVolumeInput ''i-2'' ''vol-X'')
      NewBlockDeviceManager =
        (Inr (VolumeAttachment '''' ''i-2'' ''vol-X'' ''detaching''), NewBlockDeviceManager)"
    by (simp add: cloud2Accepting_def ec2Accepting_def)
  have r2: "ReleaseDevice (dm cloud2Accepting) ''i-2'' ''vol-X'' ''f'' NewBlockDeviceManager =
     (Some (Errorf ''release called for disk %q when attach not in progress'' [ArgS ''vol-X'']),
      NewBlockDeviceManager)"
    by (simp add: cloud2Accepting_def registryDM_ReleaseDevice_i2)
  have g3: "GetAssignedDevice (dm cloud2Accepting) ''i-2'' ''vol-Z'' NewBlockDeviceManager =
      (Inr '''', NewBlockDeviceManager)"
    by (simp add: cloud2Accepting_def registryDM_GetAssignedDevice_absent)
  have d3: "DetachVolume (ec2 cloud2Accepting) (DetachVolumeInput ''i-2'' ''vol-Z'')
      NewBlockDeviceManager =
        (Inr (VolumeAttachment '''' ''i-2'' ''vol-Z'' ''detaching''), NewBlockDeviceManager)"
    by (simp add: cloud2Accepting_def ec2Accepting_def)
  have ne: "''f'' \<noteq> ''''" by simp
  note fails = DetachDisk_outcomes [OF g1, THEN conjunct1, rule_format, OF d1, THEN conjunct1]
  note ok = DetachDisk_outcomes [OF g2, THEN conjunct2, rule_format, OF d2]
  note ok_fst = ok [THEN conjunct1]
  note ok_snd = ok [THEN conjunct2, THEN conjunct1, rule_format, OF ne]
  note none = DetachDisk_outcomes [OF g3, THEN conjunct2, rule_format, OF d3]
  note none_fst = none [THEN conjunct1]
  note none_snd = none [THEN conjunct2, THEN conjunct2, THEN conjunct1, rule_format, OF refl]
  have two: "DetachDisk cloud2Accepting ''vol-X'' ''i-2'' NewBlockDeviceManager =
       (None,
        [CallGetAssignedDevice ''i-2'' ''vol-X'',
         CallDetachVolume (DetachVolumeInput ''i-2'' ''vol-X''),
         CallReleaseDevice ''i-2'' ''vol-X'' ''f''],
        NewBlockDeviceManager)"
    using ok_fst ok_snd by (simp add: prod_eq_iff r2)
  have three: "DetachDisk cloud2Accepting ''vol-Z'' ''i-2'' NewBlockDeviceManager =
       (None,
        [CallGetAssignedDevice ''i-2'' ''vol-Z'',
         CallDetachVolume (DetachVolumeInput ''i-2'' ''vol-Z'')],
        NewBlockDeviceManager)"
    using none_fst none_snd by (simp add: prod_eq_iff)
  from fails r2 two three show ?thesis by blast
qed

end
